theory Spec2Isabelle
  imports Main
begin

section \<open>tds\_fdw: a foreign data wrapper over DB-Library\<close>

text \<open>
  A shallow embedding of \<^verbatim>\<open>src/tds_fdw.c\<close>. The PostgreSQL catalog and the
  DB-Library client are outside the file: the catalog is represented by the three
  option lists it hands over, DB-Library by a record of the answers it gives and a
  log of the calls it receives.

  \<^verbatim>\<open>ereport(ERROR, ...)\<close> does not return to its caller: PostgreSQL leaves the
  function through a non-local jump to the enclosing error handler. Every such
  call is therefore an \<open>Inl\<close> result here, and the statements that follow it in
  the C text (\<^verbatim>\<open>goto cleanup\<close>, \<^verbatim>\<open>return -1\<close>, \<^verbatim>\<open>break\<close>) are never reached.
  \<^verbatim>\<open>palloc\<close> never returns a null pointer, so the branches that test for one are
  not reachable either. The \<^verbatim>\<open>#ifdef DEBUG\<close> notices are compiled out
  (\<^verbatim>\<open>DEBUG\<close> is not defined), and the one unconditional notice, \<^verbatim>\<open>No more rows\<close>,
  changes nothing and is left out.

  DB-Library reports a failure through the value a call returns. The handlers
  \<^verbatim>\<open>tds_err_handler\<close> and \<^verbatim>\<open>tds_msg_handler\<close> are installed by \<^verbatim>\<open>dberrhandle\<close> and
  \<^verbatim>\<open>dbmsghandle\<close>, which the log records; the moments at which the library
  chooses to call them are not represented.
\<close>

subsection \<open>Errors\<close>

datatype errcode =
    ERRCODE_SYNTAX_ERROR
  | ERRCODE_FDW_INVALID_OPTION_NAME
  | ERRCODE_FDW_OUT_OF_MEMORY
  | ERRCODE_FDW_UNABLE_TO_ESTABLISH_CONNECTION
  | ERRCODE_FDW_UNABLE_TO_CREATE_EXECUTION

text \<open>
  \<open>ERROR c m\<close> is \<^verbatim>\<open>ereport(ERROR, (errcode(c), errmsg(m)))\<close>, \<open>ERROR_HINT\<close> the same
  with an \<^verbatim>\<open>errhint\<close>. \<open>UNDEFINED\<close> marks an execution the C standard gives no
  meaning to (a write past the end of a buffer, a null pointer handed to
  \<^verbatim>\<open>strlen\<close>); it is not a PostgreSQL error.
\<close>

datatype failure =
    ERROR errcode string
  | ERROR_HINT errcode string string
  | UNDEFINED string

text \<open>
  The error classes of the specification: a configuration error is one raised
  with \<^verbatim>\<open>ERRCODE_SYNTAX_ERROR\<close> or \<^verbatim>\<open>ERRCODE_FDW_INVALID_OPTION_NAME\<close>, the two
  codes the option handling uses.
\<close>

fun failure_code :: "failure \<Rightarrow> errcode option" where
  "failure_code (ERROR c m) = Some c"
| "failure_code (ERROR_HINT c m h) = Some c"
| "failure_code (UNDEFINED m) = None"

definition is_ConfigurationError :: "failure \<Rightarrow> bool" where
  "is_ConfigurationError e =
     (failure_code e = Some ERRCODE_SYNTAX_ERROR \<or>
      failure_code e = Some ERRCODE_FDW_INVALID_OPTION_NAME)"

text \<open>\<^verbatim>\<open>%s\<close> of a \<^verbatim>\<open>char *\<close> that may be null prints \<^verbatim>\<open>(null)\<close>.\<close>

definition fmt_s :: "string option \<Rightarrow> string" where
  "fmt_s p = (case p of None \<Rightarrow> ''(null)'' | Some s \<Rightarrow> s)"

subsection \<open>The C library: \<^verbatim>\<open>atoi\<close> and \<^verbatim>\<open>%i\<close>\<close>

definition isspace :: "char \<Rightarrow> bool" where
  "isspace c = (let n = (of_char c :: nat) in n = 32 \<or> (9 \<le> n \<and> n \<le> 13))"

definition isdigit :: "char \<Rightarrow> bool" where
  "isdigit c = (let n = (of_char c :: nat) in 48 \<le> n \<and> n \<le> 57)"

definition digit_val :: "char \<Rightarrow> int" where
  "digit_val c = int (of_char c) - 48"

text \<open>The decimal digits at the front of a string, accumulated left to right.\<close>

fun digits_val :: "int \<Rightarrow> string \<Rightarrow> int" where
  "digits_val acc [] = acc"
| "digits_val acc (c # cs) =
     (if isdigit c then digits_val (10 * acc + digit_val c) cs else acc)"

text \<open>
  \<^verbatim>\<open>atoi(s)\<close> is \<^verbatim>\<open>(int) strtol(s, NULL, 10)\<close>: white space is skipped, one sign is
  accepted, the digits that follow are read, and a string with no digits there
  gives 0. The C standard leaves a value outside \<^verbatim>\<open>int\<close> undefined; the model
  takes what glibc does on an LP64 platform, where \<^verbatim>\<open>strtol\<close> saturates at the
  bounds of a 64-bit \<^verbatim>\<open>long\<close> and the conversion to \<^verbatim>\<open>int\<close> keeps the low 32 bits.
\<close>

definition strtol10 :: "string \<Rightarrow> int" where
  "strtol10 s =
     (let v = (case dropWhile isspace s of
                 [] \<Rightarrow> 0
               | c # cs \<Rightarrow>
                   if c = CHR ''-'' then - digits_val 0 cs
                   else if c = CHR ''+'' then digits_val 0 cs
                   else digits_val 0 (c # cs))
      in max (- (2 ^ 63)) (min (2 ^ 63 - 1) v))"

definition to_int32 :: "int \<Rightarrow> int" where
  "to_int32 v = (v + 2 ^ 31) mod 2 ^ 32 - 2 ^ 31"

definition atoi :: "string \<Rightarrow> int" where
  "atoi s = to_int32 (strtol10 s)"

text \<open>\<^verbatim>\<open>%i\<close>: a minus sign for a negative value, then the decimal digits.\<close>

fun dec_digits :: "nat \<Rightarrow> string" where
  "dec_digits n =
     (if n < 10 then [char_of (48 + n)]
      else dec_digits (n div 10) @ [char_of (48 + n mod 10)])"

declare dec_digits.simps [simp del]

definition fmt_i :: "int \<Rightarrow> string" where
  "fmt_i i = (if i < 0 then CHR ''-'' # dec_digits (nat (- i)) else dec_digits (nat i))"

subsection \<open>Options\<close>

text \<open>
  A \<^verbatim>\<open>DefElem\<close> is a name and the string \<^verbatim>\<open>defGetString\<close> reads from it; an option
  list is a list of them, in catalog order.
\<close>

type_synonym DefElem = "string \<times> string"

type_synonym Oid = nat

definition ForeignServerRelationId :: Oid where
  "ForeignServerRelationId = 1417"

definition UserMappingRelationId :: Oid where
  "UserMappingRelationId = 1418"

definition ForeignTableRelationId :: Oid where
  "ForeignTableRelationId = 3118"

definition valid_options :: "(string \<times> Oid) list" where
  "valid_options =
     [(''servername'', ForeignServerRelationId),
      (''language'', ForeignServerRelationId),
      (''character_set'', ForeignServerRelationId),
      (''port'', ForeignServerRelationId),
      (''username'', UserMappingRelationId),
      (''password'', UserMappingRelationId),
      (''database'', ForeignTableRelationId),
      (''query'', ForeignTableRelationId),
      (''table'', ForeignTableRelationId)]"

text \<open>A null \<^verbatim>\<open>char *\<close> is \<open>None\<close>; \<^verbatim>\<open>port\<close> is an \<^verbatim>\<open>int\<close>.\<close>

record TdsFdwOptionSet =
  servername :: "string option"
  language :: "string option"
  character_set :: "string option"
  port :: int
  username :: "string option"
  password :: "string option"
  database :: "string option"
  query :: "string option"
  table :: "string option"

definition DEFAULT_SERVERNAME :: string where
  "DEFAULT_SERVERNAME = ''127.0.0.1''"

definition tdsIsValidOption :: "string \<Rightarrow> Oid \<Rightarrow> bool" where
  "tdsIsValidOption option context =
     list_ex (\<lambda>opt. context = snd opt \<and> fst opt = option) valid_options"

definition tdsOptionSetInit :: TdsFdwOptionSet where
  "tdsOptionSetInit =
     \<lparr> servername = None, language = None, character_set = None, port = 0,
       username = None, password = None, database = None, query = None,
       table = None \<rparr>"

text \<open>
  The hint of the validator: the names valid in the context, separated by
  \<^verbatim>\<open>", "\<close>, or \<^verbatim>\<open><none>\<close>.
\<close>

definition valid_names_hint :: "Oid \<Rightarrow> string" where
  "valid_names_hint catalog =
     (let buf = foldl (\<lambda>buf opt.
                   if catalog = snd opt
                   then buf @ (if 0 < length buf then '', '' else '''') @ fst opt
                   else buf) '''' valid_options
      in ''Valid options in this context are: '' @ (if 0 < length buf then buf else ''<none>''))"

text \<open>One turn of the loop of \<^verbatim>\<open>tds_fdw_validator\<close>.\<close>

definition validator_step ::
  "Oid \<Rightarrow> DefElem \<Rightarrow> TdsFdwOptionSet \<Rightarrow> failure + TdsFdwOptionSet" where
  "validator_step catalog d os =
     (let defname = fst d; v = snd d in
      if \<not> tdsIsValidOption defname catalog then
        Inl (ERROR_HINT ERRCODE_FDW_INVALID_OPTION_NAME
               (''Invalid option \"'' @ defname @ ''\"'') (valid_names_hint catalog))
      else if defname = ''servername'' then
        (if servername os \<noteq> None
         then Inl (ERROR ERRCODE_SYNTAX_ERROR (''Redundant option: servername ('' @ v @ '')''))
         else Inr (os\<lparr>servername := Some v\<rparr>))
      else if defname = ''language'' then
        (if language os \<noteq> None
         then Inl (ERROR ERRCODE_SYNTAX_ERROR (''Redundant option: language ('' @ v @ '')''))
         else Inr (os\<lparr>language := Some v\<rparr>))
      else if defname = ''character_set'' then
        (if character_set os \<noteq> None
         then Inl (ERROR ERRCODE_SYNTAX_ERROR (''Redundant option: character_set ('' @ v @ '')''))
         else Inr (os\<lparr>character_set := Some v\<rparr>))
      else if defname = ''port'' then
        (if port os \<noteq> 0
         then Inl (ERROR ERRCODE_SYNTAX_ERROR (''Redundant option: port ('' @ v @ '')''))
         else Inr (os\<lparr>port := atoi v\<rparr>))
      else if defname = ''username'' then
        (if username os \<noteq> None
         then Inl (ERROR ERRCODE_SYNTAX_ERROR (''Redundant option: username ('' @ v @ '')''))
         else Inr (os\<lparr>username := Some v\<rparr>))
      else if defname = ''password'' then
        (if password os \<noteq> None
         then Inl (ERROR ERRCODE_SYNTAX_ERROR (''Redundant option: password ('' @ v @ '')''))
         else Inr (os\<lparr>password := Some v\<rparr>))
      else if defname = ''database'' then
        (if database os \<noteq> None
         then Inl (ERROR ERRCODE_SYNTAX_ERROR (''Redundant option: database ('' @ v @ '')''))
         else Inr (os\<lparr>database := Some v\<rparr>))
      else if defname = ''query'' then
        (if table os \<noteq> None
         then Inl (ERROR ERRCODE_SYNTAX_ERROR
                     ''Conflicting options: query cannot be used with table'')
         else if query os \<noteq> None
         then Inl (ERROR ERRCODE_SYNTAX_ERROR (''Redundant option: query ('' @ v @ '')''))
         else Inr (os\<lparr>query := Some v\<rparr>))
      else if defname = ''table'' then
        (if query os \<noteq> None
         then Inl (ERROR ERRCODE_SYNTAX_ERROR
                     ''Conflicting options: table cannot be used with query'')
         else if table os \<noteq> None
         then Inl (ERROR ERRCODE_SYNTAX_ERROR (''Redundant option: table ('' @ v @ '')''))
         else Inr (os\<lparr>table := Some v\<rparr>))
      else Inr os)"

fun validator_loop :: "Oid \<Rightarrow> DefElem list \<Rightarrow> TdsFdwOptionSet \<Rightarrow> failure + unit" where
  "validator_loop catalog [] os = Inr ()"
| "validator_loop catalog (d # rest) os =
     (case validator_step catalog d os of
        Inl e \<Rightarrow> Inl e
      | Inr os' \<Rightarrow> validator_loop catalog rest os')"

definition tds_fdw_validator :: "DefElem list \<Rightarrow> Oid \<Rightarrow> failure + unit" where
  "tds_fdw_validator options_list catalog =
     validator_loop catalog options_list tdsOptionSetInit"

text \<open>One turn of the loop of \<^verbatim>\<open>tdsGetOptions\<close>: the field is overwritten.\<close>

definition assign_option :: "DefElem \<Rightarrow> TdsFdwOptionSet \<Rightarrow> TdsFdwOptionSet" where
  "assign_option d os =
     (let defname = fst d; v = snd d in
      if defname = ''servername'' then os\<lparr>servername := Some v\<rparr>
      else if defname = ''language'' then os\<lparr>language := Some v\<rparr>
      else if defname = ''character_set'' then os\<lparr>character_set := Some v\<rparr>
      else if defname = ''port'' then os\<lparr>port := atoi v\<rparr>
      else if defname = ''username'' then os\<lparr>username := Some v\<rparr>
      else if defname = ''password'' then os\<lparr>password := Some v\<rparr>
      else if defname = ''database'' then os\<lparr>database := Some v\<rparr>
      else if defname = ''query'' then os\<lparr>query := Some v\<rparr>
      else if defname = ''table'' then os\<lparr>table := Some v\<rparr>
      else os)"

text \<open>
  \<^verbatim>\<open>tdsGetOptions\<close>: the options of the foreign table, of its server and of the
  user mapping are concatenated in that order and read front to back.
\<close>

definition tdsGetOptions ::
  "DefElem list \<Rightarrow> DefElem list \<Rightarrow> DefElem list \<Rightarrow> failure + TdsFdwOptionSet" where
  "tdsGetOptions f_table f_server f_mapping =
     (let options = ([] @ f_table) @ f_server @ f_mapping;
          os = fold assign_option options tdsOptionSetInit;
          os = (if servername os = None
                then os\<lparr>servername := Some DEFAULT_SERVERNAME\<rparr> else os)
      in if table os = None \<and> query os = None
         then Inl (ERROR ERRCODE_SYNTAX_ERROR ''Either a table or a query must be specified'')
         else Inr os)"

subsection \<open>Cost estimation\<close>

definition tdsGetStartupCost :: "TdsFdwOptionSet \<Rightarrow> failure + int" where
  "tdsGetStartupCost os =
     (case servername os of
        None \<Rightarrow> Inl (UNDEFINED ''strcmp on a null servername'')
      | Some s \<Rightarrow> Inr (if s = ''127.0.0.1'' \<or> s = ''localhost'' then 0 else 25))"

text \<open>
  \<^verbatim>\<open>tdsEstimateCosts\<close> reads \<^verbatim>\<open>baserel->rows\<close>, which \<^verbatim>\<open>tdsGetForeignRelSize\<close> has
  set from the \<^verbatim>\<open>int\<close> of \<^verbatim>\<open>tdsGetRowCount\<close>; the result is the pair
  \<^verbatim>\<open>(*startup_cost, *total_cost)\<close>. The costs are C doubles holding the sum of two
  integers of \<^verbatim>\<open>int\<close> size, which a double represents exactly.
\<close>

definition tdsEstimateCosts ::
  "DefElem list \<Rightarrow> DefElem list \<Rightarrow> DefElem list \<Rightarrow> int \<Rightarrow> failure + (int \<times> int)" where
  "tdsEstimateCosts f_table f_server f_mapping rows =
     (case tdsGetOptions f_table f_server f_mapping of
        Inl e \<Rightarrow> Inl e
      | Inr option_set \<Rightarrow>
          (case tdsGetStartupCost option_set of
             Inl e \<Rightarrow> Inl e
           | Inr startup_cost \<Rightarrow> Inr (startup_cost, rows + startup_cost)))"

subsection \<open>DB-Library\<close>

text \<open>
  The values of the DB-Library return codes and type tags, as \<^verbatim>\<open>sybdb.h\<close> of
  FreeTDS defines them.
\<close>

definition SUCCEED :: int where "SUCCEED = 1"
definition FAIL :: int where "FAIL = 0"
definition NO_MORE_RESULTS :: int where "NO_MORE_RESULTS = 2"
definition REG_ROW :: int where "REG_ROW = - 1"
definition NO_MORE_ROWS :: int where "NO_MORE_ROWS = - 2"
definition BUF_FULL :: int where "BUF_FULL = - 3"

definition SYBTEXT :: int where "SYBTEXT = 35"
definition SYBVARBINARY :: int where "SYBVARBINARY = 37"
definition SYBVARCHAR :: int where "SYBVARCHAR = 39"
definition SYBBINARY :: int where "SYBBINARY = 45"
definition SYBCHAR :: int where "SYBCHAR = 47"

type_synonym handle = nat

type_synonym bytes = string

text \<open>
  A column of the current row, as \<^verbatim>\<open>dbcoltype\<close>, \<^verbatim>\<open>dbdatlen\<close> and \<^verbatim>\<open>dbdata\<close>
  report it; a null data pointer is \<open>None\<close>.
\<close>

record column =
  coltype :: int
  datlen :: int
  data :: "bytes option"

text \<open>
  The answers of the library. \<open>dbconvert_ret\<close> gives, for the arguments
  \<^verbatim>\<open>srctype, src, srclen, desttype, destlen\<close>, the value \<^verbatim>\<open>dbconvert\<close> returns and
  the bytes it leaves in the destination buffer.
\<close>

record dblib =
  dbinit_ret :: int
  dblogin_ret :: "handle option"
  dbopen_ret :: "handle option"
  dbuse_ret :: int
  dbcmd_ret :: int
  dbsqlexec_ret :: int
  dbresults_ret :: int
  dbcount_ret :: int
  dbwillconvert_ret :: "int \<Rightarrow> int \<Rightarrow> bool"
  dbconvert_ret :: "int \<Rightarrow> bytes \<Rightarrow> int \<Rightarrow> int \<Rightarrow> int \<Rightarrow> int \<times> bytes"

text \<open>The calls the program makes, with the arguments that matter.\<close>

datatype dbcall =
    DbInit
  | DbErrHandle
  | DbMsgHandle
  | DbLogin
  | DbSetLUser handle "string option"
  | DbSetLPwd handle "string option"
  | DbSetLCharset handle string
  | DbSetLNatLang handle string
  | DbOpen handle string
  | DbUse handle string
  | DbCmd handle "string option"
  | DbSqlExec handle
  | DbResults handle
  | DbNextRow handle
  | DbCount handle
  | DbNumCols handle
  | DbColType handle int
  | DbDatLen handle int
  | DbData handle int
  | DbWillConvert int int
  | DbConvert handle int bytes int int int
  | DbClose handle
  | DbLoginFree handle
  | DbExit

text \<open>
  The state of the world outside the program: the calls made so far, oldest
  first; what the coming \<^verbatim>\<open>dbnextrow\<close> calls will return (a code and, for a row,
  its columns); the columns of the row read last.
\<close>

record dbworld =
  calls :: "dbcall list"
  pending :: "(int \<times> column list) list"
  current :: "column list"

definition issue :: "dbcall \<Rightarrow> dbworld \<Rightarrow> dbworld" where
  "issue c w = w\<lparr>calls := calls w @ [c]\<rparr>"

definition dbnextrow :: "handle \<Rightarrow> dbworld \<Rightarrow> int \<times> dbworld" where
  "dbnextrow dbproc w =
     (case pending w of
        [] \<Rightarrow> (NO_MORE_ROWS, issue (DbNextRow dbproc) w)
      | r # rs \<Rightarrow>
          (fst r, (issue (DbNextRow dbproc) w)\<lparr>pending := rs,
             current := (if fst r = REG_ROW then snd r else current w)\<rparr>))"

text \<open>
  Column numbers start at 1. For a number out of range \<^verbatim>\<open>dbcoltype\<close> and
  \<^verbatim>\<open>dbdatlen\<close> return -1 and \<^verbatim>\<open>dbdata\<close> a null pointer.
\<close>

definition in_range :: "dbworld \<Rightarrow> int \<Rightarrow> bool" where
  "in_range w n = (1 \<le> n \<and> n \<le> int (length (current w)))"

definition dbnumcols :: "dbworld \<Rightarrow> int" where
  "dbnumcols w = int (length (current w))"

definition dbcoltype :: "dbworld \<Rightarrow> int \<Rightarrow> int" where
  "dbcoltype w n = (if in_range w n then coltype (current w ! nat (n - 1)) else - 1)"

definition dbdatlen :: "dbworld \<Rightarrow> int \<Rightarrow> int" where
  "dbdatlen w n = (if in_range w n then datlen (current w ! nat (n - 1)) else - 1)"

definition dbdata :: "dbworld \<Rightarrow> int \<Rightarrow> bytes option" where
  "dbdata w n = (if in_range w n then data (current w ! nat (n - 1)) else None)"

subsection \<open>Opening the session\<close>

text \<open>
  The connection string is written with \<^verbatim>\<open>sprintf\<close> into a buffer of
  \<^verbatim>\<open>strlen(servername) + 10\<close> bytes; the text and its terminating zero have to fit.
\<close>

definition conn_string :: "string \<Rightarrow> int \<Rightarrow> failure + string" where
  "conn_string sname p =
     (let size = length sname + 10;
          s = (if p \<noteq> 0 then sname @ '':'' @ fmt_i p else sname)
      in if length s + 1 \<le> size then Inr s
         else Inl (UNDEFINED ''sprintf writes past the end of conn_string''))"

text \<open>
  The last part of \<^verbatim>\<open>tdsSetupConnection\<close>: an explicit query is kept, otherwise
  the query is built from the table name. The buffer has exactly the size of the
  text and its terminating zero, so \<^verbatim>\<open>snprintf\<close> truncates nothing.
\<close>

definition query_prefix :: string where
  "query_prefix = ''SELECT * FROM ''"

definition build_query :: "TdsFdwOptionSet \<Rightarrow> failure + TdsFdwOptionSet" where
  "build_query os =
     (if query os \<noteq> None then Inr os
      else (case table os of
              None \<Rightarrow> Inl (UNDEFINED ''strlen on a null table'')
            | Some t \<Rightarrow>
                (let len = length query_prefix + length t + 1
                 in Inr (os\<lparr>query := Some (take (len - 1) (query_prefix @ t))\<rparr>))))"

text \<open>
  \<^verbatim>\<open>tdsSetupConnection\<close> returns the option set, whose query it may have filled
  in, and the connection handle it stored through \<^verbatim>\<open>dbproc\<close>.
\<close>

definition tdsSetupConnection ::
  "dblib \<Rightarrow> TdsFdwOptionSet \<Rightarrow> handle \<Rightarrow> dbworld
     \<Rightarrow> (failure + (TdsFdwOptionSet \<times> handle)) \<times> dbworld" where
  "tdsSetupConnection lib os login w =
     (let w = issue (DbSetLUser login (username os)) w;
          w = issue (DbSetLPwd login (password os)) w;
          w = (case character_set os of
                 None \<Rightarrow> w | Some cs \<Rightarrow> issue (DbSetLCharset login cs) w);
          w = (case language os of
                 None \<Rightarrow> w | Some l \<Rightarrow> issue (DbSetLNatLang login l) w)
      in case servername os of
           None \<Rightarrow> (Inl (UNDEFINED ''strlen on a null servername''), w)
         | Some sname \<Rightarrow>
       (case conn_string sname (port os) of
           Inl e \<Rightarrow> (Inl e, w)
         | Inr cstr \<Rightarrow>
       (let w = issue (DbOpen login cstr) w in
        case dbopen_ret lib of
           None \<Rightarrow>
             (Inl (ERROR ERRCODE_FDW_UNABLE_TO_ESTABLISH_CONNECTION
                     (''Failed to connect using connection string '' @ cstr @
                      '' with user '' @ fmt_s (username os))), w)
         | Some dbproc \<Rightarrow>
       (let w = (case database os of
                   None \<Rightarrow> w | Some db \<Rightarrow> issue (DbUse dbproc db) w) in
        if database os \<noteq> None \<and> dbuse_ret lib = FAIL then
          (Inl (ERROR ERRCODE_FDW_UNABLE_TO_ESTABLISH_CONNECTION
                  (''Failed to select database '' @ fmt_s (database os))), w)
        else
          (case build_query os of
             Inl e \<Rightarrow> (Inl e, w)
           | Inr os' \<Rightarrow> (Inr (os', dbproc), w))))))"

subsection \<open>Row-count estimation\<close>

text \<open>
  \<^verbatim>\<open>tdsGetRowCount\<close>. Its \<^verbatim>\<open>cleanup\<close> label is reached by fall-through and by the
  one \<^verbatim>\<open>goto\<close> that does not follow an \<^verbatim>\<open>ereport(ERROR, ...)\<close>, the one for
  \<^verbatim>\<open>NO_MORE_RESULTS\<close>. The local counter \<^verbatim>\<open>rows_increment\<close> is never read.
\<close>

definition tdsGetRowCount ::
  "dblib \<Rightarrow> TdsFdwOptionSet \<Rightarrow> handle \<Rightarrow> dbworld \<Rightarrow> (failure + int) \<times> dbworld" where
  "tdsGetRowCount lib os dbproc w =
     (let rows_report = 0;
          w = issue (DbCmd dbproc (query os)) w in
      if dbcmd_ret lib = FAIL then
        (Inl (ERROR ERRCODE_FDW_UNABLE_TO_CREATE_EXECUTION
                (''Failed to set current query to '' @ fmt_s (query os))), w)
      else
      (let w = issue (DbSqlExec dbproc) w in
      if dbsqlexec_ret lib = FAIL then
        (Inl (ERROR ERRCODE_FDW_UNABLE_TO_CREATE_EXECUTION
                (''Failed to execute query '' @ fmt_s (query os))), w)
      else
      (let w = issue (DbResults dbproc) w; erc = dbresults_ret lib in
      if erc = FAIL then
        (Inl (ERROR ERRCODE_FDW_UNABLE_TO_CREATE_EXECUTION
                (''Failed to get results from query '' @ fmt_s (query os))), w)
      else if erc = NO_MORE_RESULTS then (Inr rows_report, w)
      else if erc = SUCCEED then
        (case dbnextrow dbproc w of (ret_code, w) \<Rightarrow>
           if ret_code \<noteq> NO_MORE_ROWS then
             (if ret_code = REG_ROW then
                (Inr (dbcount_ret lib), issue (DbCount dbproc) w)
              else if ret_code = BUF_FULL then
                (Inl (ERROR ERRCODE_FDW_OUT_OF_MEMORY
                        ''Buffer filled up while getting plan for query''), w)
              else if ret_code = FAIL then
                (Inl (ERROR ERRCODE_FDW_UNABLE_TO_CREATE_EXECUTION
                        ''Failed to get row while getting plan for query''), w)
              else
                (Inl (ERROR ERRCODE_FDW_UNABLE_TO_CREATE_EXECUTION
                        ''Failed to get plan for query. Unknown return code.''), w))
           else (Inr (dbcount_ret lib), issue (DbCount dbproc) w))
      else
        (Inl (ERROR ERRCODE_FDW_UNABLE_TO_CREATE_EXECUTION
                (''Unknown return code getting results from query '' @ fmt_s (query os))),
         w))))"

text \<open>
  \<^verbatim>\<open>tdsGetForeignRelSize\<close> (PostgreSQL 9.2 and later); the result is the value
  stored in \<^verbatim>\<open>baserel->rows\<close> and \<^verbatim>\<open>baserel->tuples\<close>.
\<close>

definition tdsGetForeignRelSize ::
  "dblib \<Rightarrow> DefElem list \<Rightarrow> DefElem list \<Rightarrow> DefElem list \<Rightarrow> dbworld
     \<Rightarrow> (failure + int) \<times> dbworld" where
  "tdsGetForeignRelSize lib f_table f_server f_mapping w =
     (case tdsGetOptions f_table f_server f_mapping of
        Inl e \<Rightarrow> (Inl e, w)
      | Inr option_set \<Rightarrow>
     (let w = issue DbInit w in
      if dbinit_ret lib = FAIL then
        (Inl (ERROR ERRCODE_FDW_OUT_OF_MEMORY
                ''Failed to initialize DB-Library environment''), w)
      else
     (let w = issue DbErrHandle w; w = issue DbMsgHandle w; w = issue DbLogin w in
      case dblogin_ret lib of
        None \<Rightarrow>
          (Inl (ERROR ERRCODE_FDW_OUT_OF_MEMORY
                  ''Failed to initialize DB-Library login structure''), w)
      | Some login \<Rightarrow>
     (case tdsSetupConnection lib option_set login w of
        (Inl e, w) \<Rightarrow> (Inl e, w)
      | (Inr (option_set, dbproc), w) \<Rightarrow>
     (case tdsGetRowCount lib option_set dbproc w of
        (Inl e, w) \<Rightarrow> (Inl e, w)
      | (Inr rows, w) \<Rightarrow>
          (let w = issue (DbClose dbproc) w;
               w = issue (DbLoginFree login) w;
               w = issue DbExit w
           in (Inr rows, w)))))))"

subsection \<open>The scan\<close>

text \<open>
  The fields of \<^verbatim>\<open>TdsFdwExecutionState\<close> the scan uses (\<^verbatim>\<open>columns\<close> and \<^verbatim>\<open>ncols\<close>
  are never touched).
\<close>

record TdsFdwExecutionState =
  fe_login :: handle
  fe_dbproc :: handle
  fe_query :: "string option"
  fe_first :: int
  fe_row :: int

definition tdsBeginForeignScan ::
  "dblib \<Rightarrow> DefElem list \<Rightarrow> DefElem list \<Rightarrow> DefElem list \<Rightarrow> dbworld
     \<Rightarrow> (failure + TdsFdwExecutionState) \<times> dbworld" where
  "tdsBeginForeignScan lib f_table f_server f_mapping w =
     (case tdsGetOptions f_table f_server f_mapping of
        Inl e \<Rightarrow> (Inl e, w)
      | Inr option_set \<Rightarrow>
     (let w = issue DbInit w in
      if dbinit_ret lib = FAIL then
        (Inl (ERROR ERRCODE_FDW_OUT_OF_MEMORY
                ''Failed to initialize DB-Library environment''), w)
      else
     (let w = issue DbErrHandle w; w = issue DbMsgHandle w; w = issue DbLogin w in
      case dblogin_ret lib of
        None \<Rightarrow>
          (Inl (ERROR ERRCODE_FDW_OUT_OF_MEMORY
                  ''Failed to initialize DB-Library login structure''), w)
      | Some login \<Rightarrow>
     (case tdsSetupConnection lib option_set login w of
        (Inl e, w) \<Rightarrow> (Inl e, w)
      | (Inr (option_set, dbproc), w) \<Rightarrow>
          (Inr \<lparr> fe_login = login, fe_dbproc = dbproc, fe_query = query option_set,
                 fe_first = 1, fe_row = 0 \<rparr>, w)))))"

text \<open>
  A cell is a null pointer or a buffer. \<^verbatim>\<open>tdsConvertToCString\<close> returns the
  buffer it allocated whatever \<^verbatim>\<open>dbconvert\<close> reports; the buffer holds what
  \<^verbatim>\<open>dbconvert\<close> left in it.
\<close>

type_synonym cell = "bytes option"

definition tdsConvertToCString ::
  "dblib \<Rightarrow> handle \<Rightarrow> int \<Rightarrow> bytes \<Rightarrow> int \<Rightarrow> dbworld \<Rightarrow> cell \<times> dbworld" where
  "tdsConvertToCString lib dbproc srctype src srclen w =
     (let dest = None;
          (real_destlen, destlen, desttype) =
            (if srctype = SYBCHAR \<or> srctype = SYBVARCHAR \<or> srctype = SYBTEXT
             then (srclen + 1, - 1, SYBCHAR)
             else if srctype = SYBBINARY \<or> srctype = SYBVARBINARY
             then (srclen, srclen, SYBBINARY)
             else (1000, - 1, SYBCHAR));
          w = issue (DbWillConvert srctype desttype) w
      in if dbwillconvert_ret lib srctype desttype then
           (let r = dbconvert_ret lib srctype src srclen desttype destlen;
                ret_value = fst r;
                dest = Some (snd r);
                w = issue (DbConvert dbproc srctype src srclen desttype destlen) w
            in if ret_value = FAIL then (dest, w)
               else if ret_value = - 1 then (dest, w)
               else (dest, w))
         else (dest, w))"

text \<open>The body of the column loop of \<^verbatim>\<open>tdsIterateForeignScan\<close>, for column \<open>ncol\<close>.\<close>

definition fetch_column :: "dblib \<Rightarrow> handle \<Rightarrow> int \<Rightarrow> dbworld \<Rightarrow> cell \<times> dbworld" where
  "fetch_column lib dbproc ncol w =
     (let srctype = dbcoltype w (ncol + 1); w = issue (DbColType dbproc (ncol + 1)) w;
          srclen = dbdatlen w (ncol + 1); w = issue (DbDatLen dbproc (ncol + 1)) w;
          src = dbdata w (ncol + 1); w = issue (DbData dbproc (ncol + 1)) w
      in if srclen = 0 then (None, w)
         else (case src of
                 None \<Rightarrow> (None, w)
               | Some b \<Rightarrow> tdsConvertToCString lib dbproc srctype b srclen w))"

text \<open>
  The loop \<^verbatim>\<open>for (ncol = 0; ncol < ncols; ncol++)\<close>; it lists the cells
  \<^verbatim>\<open>values[ncol]\<close>, \<^verbatim>\<open>values[ncol + 1]\<close>, ... it has set.
\<close>

function column_loop ::
  "dblib \<Rightarrow> handle \<Rightarrow> int \<Rightarrow> int \<Rightarrow> dbworld \<Rightarrow> cell list \<times> dbworld" where
  "column_loop lib dbproc ncol ncols w =
     (if ncol < ncols then
        (case fetch_column lib dbproc ncol w of
           (v, w) \<Rightarrow>
             (case column_loop lib dbproc (ncol + 1) ncols w of
                (vs, w) \<Rightarrow> (v # vs, w)))
      else ([], w))"
  by pat_completeness auto
termination
  by (relation "measure (\<lambda>(lib, dbproc, ncol, ncols, w). nat (ncols - ncol))") auto

declare column_loop.simps [simp del]

text \<open>
  \<^verbatim>\<open>tdsIterateForeignScan\<close>. The slot it returns is empty (\<open>None\<close>) at the end of
  the data, or holds the tuple built from the cells. The execution state is
  returned with the result: the assignments to \<^verbatim>\<open>first\<close> and \<^verbatim>\<open>row\<close> made before
  an error stay made.

  The first half, run when \<^verbatim>\<open>first\<close> is set:
\<close>

definition issue_query ::
  "dblib \<Rightarrow> TdsFdwExecutionState \<Rightarrow> dbworld \<Rightarrow> failure option \<times> dbworld" where
  "issue_query lib festate w =
     (let w = issue (DbCmd (fe_dbproc festate) (fe_query festate)) w in
      if dbcmd_ret lib = FAIL then
        (Some (ERROR ERRCODE_FDW_UNABLE_TO_CREATE_EXECUTION
                 (''Failed to set current query to '' @ fmt_s (fe_query festate))), w)
      else
      (let w = issue (DbSqlExec (fe_dbproc festate)) w in
      if dbsqlexec_ret lib = FAIL then
        (Some (ERROR ERRCODE_FDW_UNABLE_TO_CREATE_EXECUTION
                 (''Failed to execute query '' @ fmt_s (fe_query festate))), w)
      else
      (let w = issue (DbResults (fe_dbproc festate)) w; erc = dbresults_ret lib in
      if erc = FAIL then
        (Some (ERROR ERRCODE_FDW_UNABLE_TO_CREATE_EXECUTION
                 (''Failed to get results from query '' @ fmt_s (fe_query festate))), w)
      else if erc = NO_MORE_RESULTS then
        (Some (ERROR ERRCODE_FDW_UNABLE_TO_CREATE_EXECUTION
                 (''There appears to be no results from query '' @ fmt_s (fe_query festate))),
         w)
      else if erc = SUCCEED then (None, w)
      else
        (Some (ERROR ERRCODE_FDW_UNABLE_TO_CREATE_EXECUTION
                 (''Unknown return code getting results from query '' @
                  fmt_s (fe_query festate))), w))))"

text \<open>The second half, from \<^verbatim>\<open>dbnextrow\<close> on:\<close>

definition fetch_row ::
  "dblib \<Rightarrow> TdsFdwExecutionState \<Rightarrow> dbworld
     \<Rightarrow> (failure + cell list option) \<times> TdsFdwExecutionState \<times> dbworld" where
  "fetch_row lib festate w =
     (case dbnextrow (fe_dbproc festate) w of (ret_code, w) \<Rightarrow>
        if ret_code \<noteq> NO_MORE_ROWS then
          (if ret_code = REG_ROW then
             (let festate = festate\<lparr>fe_row := fe_row festate + 1\<rparr>;
                  ncols = dbnumcols w; w = issue (DbNumCols (fe_dbproc festate)) w
              in case column_loop lib (fe_dbproc festate) 0 ncols w of
                   (values, w) \<Rightarrow> (Inr (Some values), festate, w))
           else if ret_code = BUF_FULL then
             (Inl (ERROR ERRCODE_FDW_OUT_OF_MEMORY ''Buffer filled up during query''),
              festate, w)
           else if ret_code = FAIL then
             (Inl (ERROR ERRCODE_FDW_UNABLE_TO_CREATE_EXECUTION
                     ''Failed to get row during query''), festate, w)
           else
             (Inl (ERROR ERRCODE_FDW_UNABLE_TO_CREATE_EXECUTION
                     ''Failed to get row during query. Unknown return code.''),
              festate, w))
        else (Inr None, festate, w))"

definition tdsIterateForeignScan ::
  "dblib \<Rightarrow> TdsFdwExecutionState \<Rightarrow> dbworld
     \<Rightarrow> (failure + cell list option) \<times> TdsFdwExecutionState \<times> dbworld" where
  "tdsIterateForeignScan lib festate w =
     (if fe_first festate \<noteq> 0 then
        (let festate = festate\<lparr>fe_first := 0\<rparr> in
         case issue_query lib festate w of
           (Some e, w) \<Rightarrow> (Inl e, festate, w)
         | (None, w) \<Rightarrow> fetch_row lib festate w)
      else fetch_row lib festate w)"

definition tdsReScanForeignScan :: "TdsFdwExecutionState \<Rightarrow> TdsFdwExecutionState" where
  "tdsReScanForeignScan festate = festate"

text \<open>\<^verbatim>\<open>tdsEndForeignScan\<close>; \<^verbatim>\<open>pfree\<close> of the query is not a DB-Library call.\<close>

definition tdsEndForeignScan :: "TdsFdwExecutionState \<Rightarrow> dbworld \<Rightarrow> dbworld" where
  "tdsEndForeignScan festate w =
     (let w = issue (DbClose (fe_dbproc festate)) w;
          w = issue (DbLoginFree (fe_login festate)) w;
          w = issue DbExit w
      in w)"

text \<open>
  The executor asks for rows by calling \<^verbatim>\<open>tdsIterateForeignScan\<close> again and again.
  \<open>iterate_calls n\<close> makes \<open>n\<close> calls one after the other on the same execution
  state, whatever each of them returns.
\<close>

fun iterate_calls ::
  "dblib \<Rightarrow> nat \<Rightarrow> TdsFdwExecutionState \<Rightarrow> dbworld \<Rightarrow> TdsFdwExecutionState \<times> dbworld" where
  "iterate_calls lib 0 festate w = (festate, w)"
| "iterate_calls lib (Suc n) festate w =
     (case tdsIterateForeignScan lib festate w of
        (r, festate, w) \<Rightarrow> iterate_calls lib n festate w)"

text \<open>Projections of the call log.\<close>

fun is_query_call :: "dbcall \<Rightarrow> bool" where
  "is_query_call (DbCmd h q) = True"
| "is_query_call (DbSqlExec h) = True"
| "is_query_call (DbResults h) = True"
| "is_query_call c = False"

fun is_release_call :: "dbcall \<Rightarrow> bool" where
  "is_release_call (DbClose h) = True"
| "is_release_call (DbLoginFree h) = True"
| "is_release_call DbExit = True"
| "is_release_call c = False"

fun is_open_call :: "dbcall \<Rightarrow> bool" where
  "is_open_call (DbOpen l h) = True"
| "is_open_call c = False"

subsection \<open>Vocabulary of the properties\<close>

text \<open>
  The value a name has at its last occurrence in an option list, and the value
  the levels give it by precedence: the user mapping before the server, the
  server before the table.
\<close>

definition last_option :: "string \<Rightarrow> DefElem list \<Rightarrow> string option" where
  "last_option k ds = map_of (rev ds) k"

definition precedence_option ::
  "string \<Rightarrow> DefElem list \<Rightarrow> DefElem list \<Rightarrow> DefElem list \<Rightarrow> string option" where
  "precedence_option k f_table f_server f_mapping =
     (case last_option k f_mapping of
        Some v \<Rightarrow> Some v
      | None \<Rightarrow>
          (case last_option k f_server of
             Some v \<Rightarrow> Some v
           | None \<Rightarrow> last_option k f_table))"

text \<open>
  The calls that set a session up, and the calls that read rows.
\<close>

fun is_session_call :: "dbcall \<Rightarrow> bool" where
  "is_session_call DbInit = True"
| "is_session_call DbErrHandle = True"
| "is_session_call DbMsgHandle = True"
| "is_session_call DbLogin = True"
| "is_session_call (DbSetLUser l u) = True"
| "is_session_call (DbSetLPwd l p) = True"
| "is_session_call (DbSetLCharset l c) = True"
| "is_session_call (DbSetLNatLang l n) = True"
| "is_session_call (DbOpen l h) = True"
| "is_session_call (DbUse h d) = True"
| "is_session_call c = False"

fun is_fetch_call :: "dbcall \<Rightarrow> bool" where
  "is_fetch_call (DbNextRow h) = True"
| "is_fetch_call (DbNumCols h) = True"
| "is_fetch_call (DbColType h n) = True"
| "is_fetch_call (DbDatLen h n) = True"
| "is_fetch_call (DbData h n) = True"
| "is_fetch_call (DbWillConvert s d) = True"
| "is_fetch_call (DbConvert h s b n d m) = True"
| "is_fetch_call c = False"

text \<open>What \<^verbatim>\<open>tdsSetupConnection\<close> does before it opens the connection.\<close>

definition login_calls :: "TdsFdwOptionSet \<Rightarrow> handle \<Rightarrow> dbcall list" where
  "login_calls os login =
     [DbSetLUser login (username os), DbSetLPwd login (password os)] @
     (case character_set os of None \<Rightarrow> [] | Some cs \<Rightarrow> [DbSetLCharset login cs]) @
     (case language os of None \<Rightarrow> [] | Some l \<Rightarrow> [DbSetLNatLang login l])"

fun is_willconvert_call :: "dbcall \<Rightarrow> bool" where
  "is_willconvert_call (DbWillConvert s d) = True"
| "is_willconvert_call c = False"

definition has_data :: "column \<Rightarrow> bool" where
  "has_data c = (datlen c \<noteq> 0 \<and> data c \<noteq> None)"

definition query_calls :: "dblib \<Rightarrow> TdsFdwExecutionState \<Rightarrow> dbcall list" where
  "query_calls lib festate =
     DbCmd (fe_dbproc festate) (fe_query festate) #
     (if dbcmd_ret lib = FAIL then []
      else DbSqlExec (fe_dbproc festate) #
           (if dbsqlexec_ret lib = FAIL then [] else [DbResults (fe_dbproc festate)]))"

text \<open>A step from one world to a later one: calls are added, all of one kind.\<close>

definition extends :: "(dbcall \<Rightarrow> bool) \<Rightarrow> dbworld \<Rightarrow> dbworld \<Rightarrow> bool" where
  "extends P w w' = (\<exists>new. calls w' = calls w @ new \<and> list_all P new)"

definition is_scan_call :: "dbcall \<Rightarrow> bool" where
  "is_scan_call c = (is_fetch_call c \<or> is_query_call c)"

text \<open>
  A port value is numeric when, after white space and an optional sign, it
  goes on with a decimal digit. \<open>host_of_port\<close> is the host string of the claim:
  the server name, with the port appended when the port value parses to a
  nonzero integer.
\<close>

definition starts_number :: "string \<Rightarrow> bool" where
  "starts_number s =
     (case dropWhile isspace s of
        [] \<Rightarrow> False
      | c # cs \<Rightarrow>
          if c = CHR ''-'' \<or> c = CHR ''+''
          then (case cs of [] \<Rightarrow> False | d # ds \<Rightarrow> isdigit d)
          else isdigit c)"

definition host_of_port :: "string \<Rightarrow> string option \<Rightarrow> string" where
  "host_of_port sname p =
     (case p of
        None \<Rightarrow> sname
      | Some v \<Rightarrow> if atoi v \<noteq> 0 then sname @ '':'' @ fmt_i (atoi v) else sname)"

subsection \<open>A sample configuration\<close>

text \<open>
  A library that answers every call with success, an empty world, and the
  options of a table \<^verbatim>\<open>employees\<close> on a server with a port.
\<close>

definition lib_ok :: dblib where
  "lib_ok =
     \<lparr> dbinit_ret = SUCCEED, dblogin_ret = Some 1, dbopen_ret = Some 2,
       dbuse_ret = SUCCEED, dbcmd_ret = SUCCEED, dbsqlexec_ret = SUCCEED,
       dbresults_ret = SUCCEED, dbcount_ret = 3,
       dbwillconvert_ret = (\<lambda>srctype desttype. True),
       dbconvert_ret = (\<lambda>srctype src srclen desttype destlen. (srclen, src)) \<rparr>"

definition world0 :: dbworld where
  "world0 = \<lparr> calls = [], pending = [], current = [] \<rparr>"

definition employees_table :: "DefElem list" where
  "employees_table = [(''table'', ''employees'')]"

definition example_server :: "DefElem list" where
  "example_server = [(''servername'', ''db.example.com''), (''port'', ''1433'')]"

definition example_mapping :: "DefElem list" where
  "example_mapping = [(''username'', ''sa''), (''password'', ''secret'')]"

definition example_options :: TdsFdwOptionSet where
  "example_options =
     \<lparr> servername = Some ''db.example.com'', language = None, character_set = None,
       port = 1433, username = Some ''sa'', password = Some ''secret'', database = None,
       query = None, table = Some ''employees'' \<rparr>"

text \<open>
  A scan over a result set of one row with a name and a null column, followed
  by a failing \<^verbatim>\<open>dbnextrow\<close>; the states the scan goes through; a library whose
  \<^verbatim>\<open>dbcmd\<close> fails, and one whose \<^verbatim>\<open>dbconvert\<close> fails (returns -1 and leaves the
  buffer empty) on columns of type 56, \<^verbatim>\<open>SYBINT4\<close>.
\<close>

definition name_column :: column where
  "name_column = \<lparr> coltype = SYBVARCHAR, datlen = 5, data = Some ''Alice'' \<rparr>"

definition null_column :: column where
  "null_column = \<lparr> coltype = SYBVARCHAR, datlen = 0, data = None \<rparr>"

definition int_column :: column where
  "int_column =
     \<lparr> coltype = 56, datlen = 4, data = Some [CHR 0x2A, CHR 0x00, CHR 0x00, CHR 0x00] \<rparr>"

definition scan_world :: dbworld where
  "scan_world =
     \<lparr> calls = [], pending = [(REG_ROW, [name_column, null_column]), (FAIL, [])],
       current = [] \<rparr>"

definition begun_state :: TdsFdwExecutionState where
  "begun_state =
     \<lparr> fe_login = 1, fe_dbproc = 2, fe_query = Some ''SELECT * FROM employees'',
       fe_first = 1, fe_row = 0 \<rparr>"

definition begun_world :: dbworld where
  "begun_world =
     scan_world\<lparr>calls :=
       [DbInit, DbErrHandle, DbMsgHandle, DbLogin, DbSetLUser 1 (Some ''sa''),
        DbSetLPwd 1 (Some ''secret''), DbOpen 1 ''db.example.com:1433'']\<rparr>"

definition row_state :: TdsFdwExecutionState where
  "row_state = begun_state\<lparr>fe_first := 0, fe_row := 1\<rparr>"

definition row_world :: dbworld where
  "row_world =
     \<lparr> calls = calls begun_world @
         [DbCmd 2 (Some ''SELECT * FROM employees''), DbSqlExec 2, DbResults 2,
          DbNextRow 2, DbNumCols 2, DbColType 2 1, DbDatLen 2 1, DbData 2 1,
          DbWillConvert SYBVARCHAR SYBCHAR, DbConvert 2 SYBVARCHAR ''Alice'' 5 SYBCHAR (- 1),
          DbColType 2 2, DbDatLen 2 2, DbData 2 2],
       pending = [(FAIL, [])],
       current = [name_column, null_column] \<rparr>"

definition lib_cmd_fails :: dblib where
  "lib_cmd_fails = lib_ok\<lparr>dbcmd_ret := FAIL\<rparr>"

definition lib_convert_fails :: dblib where
  "lib_convert_fails =
     lib_ok\<lparr>dbconvert_ret :=
       (\<lambda>srctype src srclen desttype destlen.
          if srctype = 56 then (- 1, []) else (srclen, src))\<rparr>"

section \<open>Properties\<close>

lemmas retcode_defs =
  SUCCEED_def FAIL_def NO_MORE_RESULTS_def REG_ROW_def NO_MORE_ROWS_def BUF_FULL_def

lemmas sybtype_defs =
  SYBTEXT_def SYBVARBINARY_def SYBVARCHAR_def SYBBINARY_def SYBCHAR_def

subsection \<open>Reading the options\<close>

lemma assign_option_servername:
  "servername (assign_option d os) = (if fst d = ''servername'' then Some (snd d) else servername os)"
  by (simp add: assign_option_def Let_def)

lemma assign_option_language:
  "language (assign_option d os) = (if fst d = ''language'' then Some (snd d) else language os)"
  by (simp add: assign_option_def Let_def)

lemma assign_option_character_set:
  "character_set (assign_option d os) =
     (if fst d = ''character_set'' then Some (snd d) else character_set os)"
  by (simp add: assign_option_def Let_def)

lemma assign_option_port:
  "port (assign_option d os) = (if fst d = ''port'' then atoi (snd d) else port os)"
  by (simp add: assign_option_def Let_def)

lemma assign_option_username:
  "username (assign_option d os) = (if fst d = ''username'' then Some (snd d) else username os)"
  by (simp add: assign_option_def Let_def)

lemma assign_option_password:
  "password (assign_option d os) = (if fst d = ''password'' then Some (snd d) else password os)"
  by (simp add: assign_option_def Let_def)

lemma assign_option_database:
  "database (assign_option d os) = (if fst d = ''database'' then Some (snd d) else database os)"
  by (simp add: assign_option_def Let_def)

lemma assign_option_query:
  "query (assign_option d os) = (if fst d = ''query'' then Some (snd d) else query os)"
  by (simp add: assign_option_def Let_def)

lemma assign_option_table:
  "table (assign_option d os) = (if fst d = ''table'' then Some (snd d) else table os)"
  by (simp add: assign_option_def Let_def)

text \<open>The value of the last occurrence of a name in an option list.\<close>

lemma map_of_rev_Cons:
  "map_of (rev (d # ds)) k =
     (case map_of (rev ds) k of Some v \<Rightarrow> Some v
      | None \<Rightarrow> if fst d = k then Some (snd d) else None)"
  by (cases d) (simp add: map_add_def split: option.splits)

lemma fold_assign_field:
  assumes step: "\<And>d os. f (assign_option d os) = (if fst d = k then Some (g (snd d)) else f os)"
  shows "f (fold assign_option ds os) =
           (case map_of (rev ds) k of Some v \<Rightarrow> Some (g v) | None \<Rightarrow> f os)"
proof (induction ds arbitrary: os)
  case Nil
  show ?case by simp
next
  case (Cons d ds)
  show ?case
    by (simp only: fold_simps Cons.IH map_of_rev_Cons step)
       (simp split: option.splits)
qed

lemma last_option_concat:
  "map_of (rev (([] @ t) @ s @ m)) k = precedence_option k t s m"
  by (simp add: precedence_option_def last_option_def map_add_def split: option.splits)

lemma fold_assign_port:
  "port (fold assign_option ds os) =
     (case map_of (rev ds) ''port'' of Some v \<Rightarrow> atoi v | None \<Rightarrow> port os)"
proof (induction ds arbitrary: os)
  case Nil
  show ?case by simp
next
  case (Cons d ds)
  show ?case
    by (simp only: fold_simps Cons.IH map_of_rev_Cons assign_option_port)
       (simp split: option.splits)
qed

lemmas fold_assign_servername =
  fold_assign_field [where f = servername and g = "\<lambda>v. v", OF assign_option_servername]
lemmas fold_assign_language =
  fold_assign_field [where f = language and g = "\<lambda>v. v", OF assign_option_language]
lemmas fold_assign_character_set =
  fold_assign_field [where f = character_set and g = "\<lambda>v. v", OF assign_option_character_set]
lemmas fold_assign_username =
  fold_assign_field [where f = username and g = "\<lambda>v. v", OF assign_option_username]
lemmas fold_assign_password =
  fold_assign_field [where f = password and g = "\<lambda>v. v", OF assign_option_password]
lemmas fold_assign_database =
  fold_assign_field [where f = database and g = "\<lambda>v. v", OF assign_option_database]
lemmas fold_assign_query =
  fold_assign_field [where f = query and g = "\<lambda>v. v", OF assign_option_query]
lemmas fold_assign_table =
  fold_assign_field [where f = table and g = "\<lambda>v. v", OF assign_option_table]

lemma fold_init_fields:
  fixes t s m
  defines "os0 \<equiv> fold assign_option (([] @ t) @ s @ m) tdsOptionSetInit"
  shows "servername os0 = precedence_option ''servername'' t s m"
    and "language os0 = precedence_option ''language'' t s m"
    and "character_set os0 = precedence_option ''character_set'' t s m"
    and "port os0 = (case precedence_option ''port'' t s m of None \<Rightarrow> 0 | Some v \<Rightarrow> atoi v)"
    and "username os0 = precedence_option ''username'' t s m"
    and "password os0 = precedence_option ''password'' t s m"
    and "database os0 = precedence_option ''database'' t s m"
    and "query os0 = precedence_option ''query'' t s m"
    and "table os0 = precedence_option ''table'' t s m"
proof -
  have init: "servername tdsOptionSetInit = None" "language tdsOptionSetInit = None"
    "character_set tdsOptionSetInit = None" "port tdsOptionSetInit = 0"
    "username tdsOptionSetInit = None" "password tdsOptionSetInit = None"
    "database tdsOptionSetInit = None" "query tdsOptionSetInit = None"
    "table tdsOptionSetInit = None"
    by (simp_all add: tdsOptionSetInit_def)
  have same: "(case x of None \<Rightarrow> None | Some v \<Rightarrow> Some v) = x" for x :: "string option"
    by (cases x) simp_all
  have swap: "(case x of None \<Rightarrow> (0::int) | Some v \<Rightarrow> atoi v) =
              (case x of Some v \<Rightarrow> atoi v | None \<Rightarrow> 0)" for x
    by simp
  show "servername os0 = precedence_option ''servername'' t s m"
    by (simp only: os0_def fold_assign_servername last_option_concat init same)
  show "language os0 = precedence_option ''language'' t s m"
    by (simp only: os0_def fold_assign_language last_option_concat init same)
  show "character_set os0 = precedence_option ''character_set'' t s m"
    by (simp only: os0_def fold_assign_character_set last_option_concat init same)
  show "port os0 = (case precedence_option ''port'' t s m of None \<Rightarrow> 0 | Some v \<Rightarrow> atoi v)"
    by (simp only: os0_def fold_assign_port last_option_concat init)
  show "username os0 = precedence_option ''username'' t s m"
    by (simp only: os0_def fold_assign_username last_option_concat init same)
  show "password os0 = precedence_option ''password'' t s m"
    by (simp only: os0_def fold_assign_password last_option_concat init same)
  show "database os0 = precedence_option ''database'' t s m"
    by (simp only: os0_def fold_assign_database last_option_concat init same)
  show "query os0 = precedence_option ''query'' t s m"
    by (simp only: os0_def fold_assign_query last_option_concat init same)
  show "table os0 = precedence_option ''table'' t s m"
    by (simp only: os0_def fold_assign_table last_option_concat init same)
qed

lemma tdsGetOptions_fields:
  assumes "tdsGetOptions t s m = Inr os"
  shows "servername os =
           Some (case precedence_option ''servername'' t s m of
                   None \<Rightarrow> DEFAULT_SERVERNAME | Some v \<Rightarrow> v)"
    and "language os = precedence_option ''language'' t s m"
    and "character_set os = precedence_option ''character_set'' t s m"
    and "port os = (case precedence_option ''port'' t s m of None \<Rightarrow> 0 | Some v \<Rightarrow> atoi v)"
    and "username os = precedence_option ''username'' t s m"
    and "password os = precedence_option ''password'' t s m"
    and "database os = precedence_option ''database'' t s m"
    and "query os = precedence_option ''query'' t s m"
    and "table os = precedence_option ''table'' t s m"
    and "table os \<noteq> None \<or> query os \<noteq> None"
proof -
  define os0 where "os0 = fold assign_option (([] @ t) @ s @ m) tdsOptionSetInit"
  note f = fold_init_fields [of t s m, folded os0_def]
  have os: "os = (if servername os0 = None then os0\<lparr>servername := Some DEFAULT_SERVERNAME\<rparr> else os0)"
    and req: "\<not> (table os = None \<and> query os = None)"
    using assms unfolding tdsGetOptions_def Let_def os0_def [symmetric]
    by (auto split: if_splits)
  show "servername os =
           Some (case precedence_option ''servername'' t s m of
                   None \<Rightarrow> DEFAULT_SERVERNAME | Some v \<Rightarrow> v)"
    using f(1) by (auto simp: os split: option.splits)
  show "language os = precedence_option ''language'' t s m"
    using f(2) by (simp add: os)
  show "character_set os = precedence_option ''character_set'' t s m"
    using f(3) by (simp add: os)
  show "port os = (case precedence_option ''port'' t s m of None \<Rightarrow> 0 | Some v \<Rightarrow> atoi v)"
    using f(4) by (simp add: os)
  show "username os = precedence_option ''username'' t s m"
    using f(5) by (simp add: os)
  show "password os = precedence_option ''password'' t s m"
    using f(6) by (simp add: os)
  show "database os = precedence_option ''database'' t s m"
    using f(7) by (simp add: os)
  show "query os = precedence_option ''query'' t s m"
    using f(8) by (simp add: os)
  show "table os = precedence_option ''table'' t s m"
    using f(9) by (simp add: os)
  show "table os \<noteq> None \<or> query os \<noteq> None"
    using req by simp
qed

text \<open>
  Claim C9. When an option name is supplied at more than one level, the resolved
  value is the one of its last occurrence in the order table, server, user
  mapping: a value of the user mapping overrides one of the server, which
  overrides one of the table. This holds for every option; \<^verbatim>\<open>servername\<close>
  falls back to its default when no level supplies it, and \<^verbatim>\<open>port\<close> is the
  \<^verbatim>\<open>atoi\<close> of the value that wins.
\<close>

theorem option_precedence:
  assumes "tdsGetOptions f_table f_server f_mapping = Inr os"
  shows "servername os =
           Some (case precedence_option ''servername'' f_table f_server f_mapping of
                   None \<Rightarrow> DEFAULT_SERVERNAME | Some v \<Rightarrow> v) \<and>
         language os = precedence_option ''language'' f_table f_server f_mapping \<and>
         character_set os = precedence_option ''character_set'' f_table f_server f_mapping \<and>
         port os =
           (case precedence_option ''port'' f_table f_server f_mapping of
              None \<Rightarrow> 0 | Some v \<Rightarrow> atoi v) \<and>
         username os = precedence_option ''username'' f_table f_server f_mapping \<and>
         password os = precedence_option ''password'' f_table f_server f_mapping \<and>
         database os = precedence_option ''database'' f_table f_server f_mapping \<and>
         query os = precedence_option ''query'' f_table f_server f_mapping \<and>
         table os = precedence_option ''table'' f_table f_server f_mapping"
  using tdsGetOptions_fields [OF assms] by simp

text \<open>
  The same user name at the three levels: the one of the user mapping wins.
\<close>

theorem option_precedence_witness:
  "tdsGetOptions [(''table'', ''employees''), (''username'', ''a'')]
       [(''username'', ''b'')] [(''username'', ''c'')] =
     Inr \<lparr> servername = Some ''127.0.0.1'', language = None, character_set = None,
           port = 0, username = Some ''c'', password = None, database = None,
           query = None, table = Some ''employees'' \<rparr> \<and>
   precedence_option ''username'' [(''table'', ''employees''), (''username'', ''a'')]
       [(''username'', ''b'')] [(''username'', ''c'')] = Some ''c''"
proof -
  have h: "tdsGetOptions [(''table'', ''employees''), (''username'', ''a'')]
       [(''username'', ''b'')] [(''username'', ''c'')] =
     Inr \<lparr> servername = Some ''127.0.0.1'', language = None, character_set = None,
           port = 0, username = Some ''c'', password = None, database = None,
           query = None, table = Some ''employees'' \<rparr>"
    by code_simp
  show ?thesis
    using h option_precedence [OF h] by simp
qed

subsection \<open>Query and table together\<close>

lemma validator_step_Inl:
  "validator_step c d os = Inl e \<Longrightarrow> is_ConfigurationError e"
  unfolding validator_step_def Let_def is_ConfigurationError_def
  by (auto split: if_splits)

lemma validator_step_Inr:
  assumes "validator_step c d os = Inr os'"
  shows "query os' = (if fst d = ''query'' then Some (snd d) else query os)"
    and "table os' = (if fst d = ''table'' then Some (snd d) else table os)"
    and "fst d = ''query'' \<Longrightarrow> table os = None"
    and "fst d = ''table'' \<Longrightarrow> query os = None"
  using assms unfolding validator_step_def Let_def
  by (auto split: if_splits)

lemma validator_loop_Inl:
  "validator_loop c ds os = Inl e \<Longrightarrow> is_ConfigurationError e"
proof (induction ds arbitrary: os)
  case Nil
  then show ?case by simp
next
  case (Cons d ds)
  then show ?case
    by (auto split: sum.splits dest: validator_step_Inl)
qed

lemma validator_loop_conflict:
  assumes "query os \<noteq> None \<or> ''query'' \<in> fst ` set ds"
      and "table os \<noteq> None \<or> ''table'' \<in> fst ` set ds"
      and "query os = None \<or> table os = None"
  shows "\<exists>e. validator_loop c ds os = Inl e"
  using assms
proof (induction ds arbitrary: os)
  case Nil
  then show ?case by auto
next
  case (Cons d ds)
  show ?case
  proof (cases "validator_step c d os")
    case (Inl e)
    then show ?thesis by simp
  next
    case (Inr os')
    note st = validator_step_Inr [OF Inr]
    have q: "query os' \<noteq> None \<or> ''query'' \<in> fst ` set ds"
      using Cons.prems(1) st(1) by auto
    have t: "table os' \<noteq> None \<or> ''table'' \<in> fst ` set ds"
      using Cons.prems(2) st(2) by auto
    have n: "query os' = None \<or> table os' = None"
      using Cons.prems(3) st by (auto split: if_splits)
    from Cons.IH [OF q t n] Inr show ?thesis by simp
  qed
qed

text \<open>
  Claim C1 says that resolution fails when both \<^verbatim>\<open>query\<close> and \<^verbatim>\<open>table\<close> are
  supplied. \<^verbatim>\<open>tdsGetOptions\<close> only checks that one of the two is there: with both
  it succeeds and keeps both, and the query is the one used afterwards.
\<close>

theorem resolution_accepts_query_with_table:
  "tdsGetOptions [(''query'', ''SELECT id FROM t''), (''table'', ''t'')] [] [] =
     Inr \<lparr> servername = Some ''127.0.0.1'', language = None, character_set = None,
           port = 0, username = None, password = None, database = None,
           query = Some ''SELECT id FROM t'', table = Some ''t'' \<rparr>"
  by code_simp

text \<open>
  Claim C1, as the code has it. The conflict is caught by the validator, which
  PostgreSQL runs when the options are defined: for every option list that
  supplies both \<^verbatim>\<open>query\<close> and \<^verbatim>\<open>table\<close>, in whatever catalog context,
  \<^verbatim>\<open>tds_fdw_validator\<close> fails with a configuration error. The validator makes no
  DB-Library call at all, so the failure precedes any connection.
\<close>

theorem validator_rejects_query_with_table:
  assumes "''query'' \<in> fst ` set options_list"
      and "''table'' \<in> fst ` set options_list"
  shows "\<exists>e. tds_fdw_validator options_list catalog = Inl e \<and> is_ConfigurationError e"
proof -
  have "\<exists>e. validator_loop catalog options_list tdsOptionSetInit = Inl e"
    by (rule validator_loop_conflict) (simp_all add: assms tdsOptionSetInit_def)
  then show ?thesis
    unfolding tds_fdw_validator_def by (auto dest: validator_loop_Inl)
qed

theorem validator_rejects_query_with_table_witness:
  "''query'' \<in> fst ` set [(''query'', ''SELECT id FROM t''), (''table'', ''t'')] \<and>
   ''table'' \<in> fst ` set [(''query'', ''SELECT id FROM t''), (''table'', ''t'')] \<and>
   (\<exists>e. tds_fdw_validator [(''query'', ''SELECT id FROM t''), (''table'', ''t'')]
           ForeignTableRelationId = Inl e \<and> is_ConfigurationError e)"
  using validator_rejects_query_with_table
          [of "[(''query'', ''SELECT id FROM t''), (''table'', ''t'')]" ForeignTableRelationId]
  by simp

subsection \<open>Cost\<close>

text \<open>
  Claim C8. For every resolved plan and every row count, the startup cost is 0
  when the server name is exactly \<^verbatim>\<open>127.0.0.1\<close> or \<^verbatim>\<open>localhost\<close> and 25 otherwise,
  and the total cost is the row count plus the startup cost.
\<close>

theorem startup_and_total_cost:
  assumes "tdsGetOptions f_table f_server f_mapping = Inr os"
  shows "\<exists>sname. servername os = Some sname \<and>
           tdsGetStartupCost os =
             Inr (if sname = ''127.0.0.1'' \<or> sname = ''localhost'' then 0 else 25) \<and>
           tdsEstimateCosts f_table f_server f_mapping rows =
             Inr (if sname = ''127.0.0.1'' \<or> sname = ''localhost'' then 0 else 25,
                  rows + (if sname = ''127.0.0.1'' \<or> sname = ''localhost'' then 0 else 25))"
  using tdsGetOptions_fields(1) [OF assms] assms
  by (simp add: tdsEstimateCosts_def tdsGetStartupCost_def)

theorem startup_and_total_cost_witness:
  "tdsGetOptions [(''table'', ''employees'')] [(''servername'', ''10.1.2.3'')] [] =
     Inr \<lparr> servername = Some ''10.1.2.3'', language = None, character_set = None,
           port = 0, username = None, password = None, database = None,
           query = None, table = Some ''employees'' \<rparr> \<and>
   tdsEstimateCosts [(''table'', ''employees'')] [(''servername'', ''10.1.2.3'')] [] 3 =
     Inr (25, 28)"
proof -
  have h: "tdsGetOptions [(''table'', ''employees'')] [(''servername'', ''10.1.2.3'')] [] =
     Inr \<lparr> servername = Some ''10.1.2.3'', language = None, character_set = None,
           port = 0, username = None, password = None, database = None,
           query = None, table = Some ''employees'' \<rparr>"
    by code_simp
  show ?thesis
    using h startup_and_total_cost [OF h, of 3] by simp
qed

subsection \<open>Opening the connection\<close>

lemma calls_issue [simp]: "calls (issue c w) = calls w @ [c]"
  by (simp add: issue_def)

lemma pending_issue [simp]: "pending (issue c w) = pending w"
  by (simp add: issue_def)

lemma current_issue [simp]: "current (issue c w) = current w"
  by (simp add: issue_def)

lemma session_not_query: "is_session_call c \<Longrightarrow> \<not> is_query_call c"
  by (cases c) simp_all

lemma session_not_release: "is_session_call c \<Longrightarrow> \<not> is_release_call c"
  by (cases c) simp_all

lemma fetch_not_query: "is_fetch_call c \<Longrightarrow> \<not> is_query_call c"
  by (cases c) simp_all

lemma fetch_not_release: "is_fetch_call c \<Longrightarrow> \<not> is_release_call c"
  by (cases c) simp_all

lemma filter_none: "list_all P xs \<Longrightarrow> (\<And>x. P x \<Longrightarrow> \<not> Q x) \<Longrightarrow> filter Q xs = []"
  by (induction xs) auto

lemma conn_string_cases:
  "conn_string sname p = Inr h \<Longrightarrow> h = (if p \<noteq> 0 then sname @ '':'' @ fmt_i p else sname)"
  "conn_string sname p = Inl e \<Longrightarrow> p \<noteq> 0 \<and> 8 < length (fmt_i p) \<and>
     e = UNDEFINED ''sprintf writes past the end of conn_string''"
  "p = 0 \<or> length (fmt_i p) \<le> 8 \<Longrightarrow>
     conn_string sname p = Inr (if p \<noteq> 0 then sname @ '':'' @ fmt_i p else sname)"
  by (auto simp: conn_string_def Let_def split: if_splits)

lemma setup_result:
  assumes sn: "servername os = Some sname"
  shows "tdsSetupConnection lib os login w =
     (case conn_string sname (port os) of
        Inl e \<Rightarrow> (Inl e, w\<lparr>calls := calls w @ login_calls os login\<rparr>)
      | Inr cstr \<Rightarrow>
          (case dbopen_ret lib of
             None \<Rightarrow>
               (Inl (ERROR ERRCODE_FDW_UNABLE_TO_ESTABLISH_CONNECTION
                       (''Failed to connect using connection string '' @ cstr @
                        '' with user '' @ fmt_s (username os))),
                w\<lparr>calls := calls w @ login_calls os login @ [DbOpen login cstr]\<rparr>)
           | Some dbproc \<Rightarrow>
               (if database os \<noteq> None \<and> dbuse_ret lib = FAIL then
                  (Inl (ERROR ERRCODE_FDW_UNABLE_TO_ESTABLISH_CONNECTION
                          (''Failed to select database '' @ fmt_s (database os))),
                   w\<lparr>calls := calls w @ login_calls os login @ [DbOpen login cstr] @
                        (case database os of None \<Rightarrow> [] | Some db \<Rightarrow> [DbUse dbproc db])\<rparr>)
                else
                  (case build_query os of
                     Inl e \<Rightarrow> (Inl e, w\<lparr>calls := calls w @ login_calls os login @ [DbOpen login cstr] @
                        (case database os of None \<Rightarrow> [] | Some db \<Rightarrow> [DbUse dbproc db])\<rparr>)
                   | Inr os' \<Rightarrow> (Inr (os', dbproc), w\<lparr>calls := calls w @ login_calls os login @ [DbOpen login cstr] @
                        (case database os of None \<Rightarrow> [] | Some db \<Rightarrow> [DbUse dbproc db])\<rparr>)))))"
  unfolding tdsSetupConnection_def Let_def login_calls_def
  by (simp add: sn issue_def split: option.splits sum.splits)

lemma atoi_0: "atoi ''0'' = 0"
  by (simp add: atoi_def strtol10_def to_int32_def isspace_def isdigit_def digit_val_def)

lemma digits_val_no_digit: "(case cs of [] \<Rightarrow> True | d # ds \<Rightarrow> \<not> isdigit d) \<Longrightarrow> digits_val a cs = a"
  by (cases cs) simp_all

lemma sign_not_digit: "\<not> isdigit CHR ''-''" "\<not> isdigit CHR ''+''"
  by (simp_all add: isdigit_def)

lemma strtol10_non_numeric:
  assumes "\<not> starts_number v"
  shows "strtol10 v = 0"
proof (cases "dropWhile isspace v")
  case Nil
  show ?thesis unfolding strtol10_def Let_def Nil by simp
next
  case (Cons c cs)
  show ?thesis
  proof (cases "c = CHR ''-'' \<or> c = CHR ''+''")
    case True
    with assms Cons have "case cs of [] \<Rightarrow> True | d # ds \<Rightarrow> \<not> isdigit d"
      by (simp add: starts_number_def split: list.splits)
    then have "digits_val 0 cs = 0"
      by (rule digits_val_no_digit)
    with True show ?thesis
      unfolding strtol10_def Let_def Cons by auto
  next
    case False
    with assms Cons have "\<not> isdigit c"
      by (simp add: starts_number_def)
    then have "digits_val 0 (c # cs) = 0"
      by simp
    with False show ?thesis
      unfolding strtol10_def Let_def Cons by (simp del: digits_val.simps)
  qed
qed

lemma atoi_non_numeric: "\<not> starts_number v \<Longrightarrow> atoi v = 0"
  by (simp add: atoi_def strtol10_non_numeric to_int32_def)

lemma host_of_port_port:
  "host_of_port sname p =
     (if (case p of None \<Rightarrow> 0 | Some v \<Rightarrow> atoi v) \<noteq> 0
      then sname @ '':'' @ fmt_i (case p of None \<Rightarrow> 0 | Some v \<Rightarrow> atoi v) else sname)"
  by (simp add: host_of_port_def split: option.splits)

lemma login_calls_not_open: "filter is_open_call (login_calls os login) = []"
  by (simp add: login_calls_def split: option.splits)

lemma use_calls_not_open:
  "filter is_open_call (case d of None \<Rightarrow> [] | Some db \<Rightarrow> [DbUse dbproc db]) = []"
  by (simp split: option.splits)

lemma example_resolution:
  "tdsGetOptions employees_table example_server example_mapping = Inr example_options"
  by code_simp

lemma example_setup:
  "tdsSetupConnection lib_ok example_options 1 world0 =
     (Inr (example_options\<lparr>query := Some ''SELECT * FROM employees''\<rparr>, 2),
      \<lparr> calls = [DbSetLUser 1 (Some ''sa''), DbSetLPwd 1 (Some ''secret''),
                 DbOpen 1 ''db.example.com:1433''],
        pending = [], current = [] \<rparr>)"
  by code_simp

text \<open>
  Claim C10. The host string handed to \<^verbatim>\<open>dbopen\<close> is \<^verbatim>\<open>servername:port\<close> only when
  the port option parses, through \<^verbatim>\<open>atoi\<close>, to a nonzero integer; a port that
  is absent, equal to \<^verbatim>\<open>0\<close> or not numeric gives the server name alone, so
  port 0 cannot be told from no port. (The string is written into
  \<^verbatim>\<open>strlen(servername) + 10\<close> bytes: when the port has more than eight
  characters the write runs past the buffer and no call is made in the model.)
\<close>

theorem host_string_of_port:
  assumes "tdsGetOptions f_table f_server f_mapping = Inr os"
      and "tdsSetupConnection lib os login w = (r, w')"
  shows "\<exists>sname. servername os = Some sname \<and>
           (filter is_open_call (calls w') =
              filter is_open_call (calls w) @
                [DbOpen login
                   (host_of_port sname (precedence_option ''port'' f_table f_server f_mapping))] \<or>
            length sname + 10 \<le>
              length (host_of_port sname (precedence_option ''port'' f_table f_server f_mapping)) \<and>
            r = Inl (UNDEFINED ''sprintf writes past the end of conn_string'') \<and>
            filter is_open_call (calls w') = filter is_open_call (calls w)) \<and>
           host_of_port sname None = sname \<and>
           host_of_port sname (Some ''0'') = sname \<and>
           (\<forall>v. \<not> starts_number v \<longrightarrow> host_of_port sname (Some v) = sname)"
proof -
  define p where "p = precedence_option ''port'' f_table f_server f_mapping"
  obtain sname where sn: "servername os = Some sname"
    using tdsGetOptions_fields(1) [OF assms(1)] by blast
  have port: "port os = (case p of None \<Rightarrow> 0 | Some v \<Rightarrow> atoi v)"
    using tdsGetOptions_fields(4) [OF assms(1)] by (simp add: p_def)
  have host: "host_of_port sname p =
                (if port os \<noteq> 0 then sname @ '':'' @ fmt_i (port os) else sname)"
    by (simp only: host_of_port_port port)
  have facts: "host_of_port sname None = sname \<and> host_of_port sname (Some ''0'') = sname \<and>
               (\<forall>v. \<not> starts_number v \<longrightarrow> host_of_port sname (Some v) = sname)"
    by (simp add: host_of_port_def atoi_0 atoi_non_numeric)
  have main: "filter is_open_call (calls w') =
                filter is_open_call (calls w) @ [DbOpen login (host_of_port sname p)] \<or>
              length sname + 10 \<le> length (host_of_port sname p) \<and>
              r = Inl (UNDEFINED ''sprintf writes past the end of conn_string'') \<and>
              filter is_open_call (calls w') = filter is_open_call (calls w)"
  proof (cases "conn_string sname (port os)")
    case (Inl e)
    have e: "port os \<noteq> 0" "8 < length (fmt_i (port os))"
      "e = UNDEFINED ''sprintf writes past the end of conn_string''"
      using conn_string_cases(2) [OF Inl] by simp_all
    from assms(2) have "r = Inl e" "calls w' = calls w @ login_calls os login"
      by (auto simp: setup_result [OF sn] Inl)
    then show ?thesis
      using e by (simp add: host login_calls_not_open)
  next
    case (Inr cstr)
    have c: "cstr = host_of_port sname p"
      using conn_string_cases(1) [OF Inr] by (simp add: host)
    from assms(2) have "\<exists>rest. calls w' = calls w @ login_calls os login @ [DbOpen login cstr] @ rest
        \<and> filter is_open_call rest = []"
      by (auto simp: setup_result [OF sn] Inr use_calls_not_open split: option.splits sum.splits if_splits)
    then show ?thesis
      by (auto simp: c login_calls_not_open)
  qed
  show ?thesis
    using sn main facts unfolding p_def by blast
qed

theorem host_string_of_port_witness:
  "tdsGetOptions employees_table example_server example_mapping = Inr example_options \<and>
   precedence_option ''port'' employees_table example_server example_mapping = Some ''1433'' \<and>
   atoi ''1433'' = 1433 \<and>
   filter is_open_call
     (calls (snd (tdsSetupConnection lib_ok example_options 1 world0))) =
     [DbOpen 1 ''db.example.com:1433'']"
proof -
  have p: "precedence_option ''port'' employees_table example_server example_mapping =
             Some ''1433''"
    by code_simp
  have a: "atoi ''1433'' = 1433"
    by code_simp
  have h: "host_of_port ''db.example.com'' (Some ''1433'') = ''db.example.com:1433''"
    by code_simp
  have sn: "servername example_options = Some ''db.example.com''"
    by (simp add: example_options_def)
  show ?thesis
    using host_string_of_port [OF example_resolution example_setup] p a h sn
      example_resolution
    unfolding example_setup by (simp add: world0_def)
qed

text \<open>
  Claim C3. For every configuration that supplies \<^verbatim>\<open>table\<close> and no \<^verbatim>\<open>query\<close>,
  the resolved query is exactly \<^verbatim>\<open>SELECT * FROM\<close> followed by the table name;
  \<^verbatim>\<open>table=employees\<close> resolves to \<^verbatim>\<open>SELECT * FROM employees\<close>. The query is
  built at the end of \<^verbatim>\<open>tdsSetupConnection\<close>, which returns it unless the
  connection itself fails.
\<close>

theorem table_resolves_to_select:
  assumes "tdsGetOptions f_table f_server f_mapping = Inr os"
      and "''query'' \<notin> fst ` set (f_table @ f_server @ f_mapping)"
      and "precedence_option ''table'' f_table f_server f_mapping = Some tab"
  shows "(\<exists>dbproc w'. tdsSetupConnection lib os login w =
            (Inr (os\<lparr>query := Some (''SELECT * FROM '' @ tab)\<rparr>, dbproc), w')) \<or>
         (\<exists>e w'. tdsSetupConnection lib os login w = (Inl e, w') \<and>
            (dbopen_ret lib = None \<or>
             database os \<noteq> None \<and> dbuse_ret lib = FAIL \<or>
             port os \<noteq> 0 \<and> 8 < length (fmt_i (port os))))"
proof -
  obtain sname where sn: "servername os = Some sname"
    using tdsGetOptions_fields(1) [OF assms(1)] by blast
  have "precedence_option ''query'' f_table f_server f_mapping = None"
    using assms(2)
    by (auto simp: precedence_option_def last_option_def map_of_eq_None_iff image_Un
             split: option.splits)
  then have q: "query os = None"
    using tdsGetOptions_fields(8) [OF assms(1)] by simp
  have t: "table os = Some tab"
    using tdsGetOptions_fields(9) [OF assms(1)] assms(3) by simp
  have b: "build_query os = Inr (os\<lparr>query := Some (''SELECT * FROM '' @ tab)\<rparr>)"
    by (simp add: build_query_def q t query_prefix_def)
  show ?thesis
    using conn_string_cases(2) [of sname "port os"]
    by (auto simp: setup_result [OF sn] b split: sum.splits option.splits)
qed

theorem table_resolves_to_select_witness:
  "tdsGetOptions employees_table example_server example_mapping = Inr example_options \<and>
   ''query'' \<notin> fst ` set (employees_table @ example_server @ example_mapping) \<and>
   precedence_option ''table'' employees_table example_server example_mapping =
     Some ''employees'' \<and>
   fst (tdsSetupConnection lib_ok example_options 1 world0) =
     Inr (example_options\<lparr>query := Some ''SELECT * FROM employees''\<rparr>, 2)"
proof -
  have q: "''query'' \<notin> fst ` set (employees_table @ example_server @ example_mapping)"
    by (simp add: employees_table_def example_server_def example_mapping_def)
  have t: "precedence_option ''table'' employees_table example_server example_mapping =
             Some ''employees''"
    by code_simp
  show ?thesis
    using table_resolves_to_select [OF example_resolution q t, of lib_ok 1 world0]
      q t example_resolution
    unfolding example_setup by simp
qed

subsection \<open>The calls of a scan\<close>

lemma extends_refl: "extends P w w"
  by (simp add: extends_def)

lemma extends_trans: "extends P w w1 \<Longrightarrow> extends P w1 w2 \<Longrightarrow> extends P w w2"
  by (auto simp: extends_def)

lemma extends_issue: "P c \<Longrightarrow> extends P w (issue c w)"
  by (simp add: extends_def)

lemma extends_mono: "extends P w w' \<Longrightarrow> (\<And>c. P c \<Longrightarrow> Q c) \<Longrightarrow> extends Q w w'"
  by (auto simp: extends_def list_all_iff)

lemma extends_filter:
  assumes "extends P w w'" and "\<And>c. P c \<Longrightarrow> \<not> Q c"
  shows "filter Q (calls w') = filter Q (calls w)"
proof -
  from assms(1) obtain new where n: "calls w' = calls w @ new" "list_all P new"
    unfolding extends_def by blast
  have "filter Q new = []"
    by (rule filter_none [OF n(2)]) (rule assms(2))
  then show ?thesis
    by (simp add: n(1))
qed

lemma convert_frame:
  "extends is_fetch_call w (snd (tdsConvertToCString lib dbproc srctype src srclen w))"
  "pending (snd (tdsConvertToCString lib dbproc srctype src srclen w)) = pending w"
  "current (snd (tdsConvertToCString lib dbproc srctype src srclen w)) = current w"
  "length (filter is_willconvert_call (calls (snd (tdsConvertToCString lib dbproc srctype src srclen w))))
     = Suc (length (filter is_willconvert_call (calls w)))"
  by (simp_all add: tdsConvertToCString_def Let_def extends_def)

lemma fetch_column_frame:
  "extends is_fetch_call w (snd (fetch_column lib dbproc ncol w))"
  "pending (snd (fetch_column lib dbproc ncol w)) = pending w"
  "current (snd (fetch_column lib dbproc ncol w)) = current w"
proof -
  let ?w3 = "issue (DbData dbproc (ncol + 1))
              (issue (DbDatLen dbproc (ncol + 1)) (issue (DbColType dbproc (ncol + 1)) w))"
  have e3: "extends is_fetch_call w ?w3"
    by (simp add: extends_def)
  have c: "snd (fetch_column lib dbproc ncol w) = ?w3 \<or>
           (\<exists>t b n. snd (fetch_column lib dbproc ncol w) =
                      snd (tdsConvertToCString lib dbproc t b n ?w3))"
    by (auto simp: fetch_column_def Let_def split: option.splits)
  from c show "extends is_fetch_call w (snd (fetch_column lib dbproc ncol w))"
    using e3 convert_frame(1) [where w = ?w3] by (auto intro: extends_trans)
  from c show "pending (snd (fetch_column lib dbproc ncol w)) = pending w"
    by (auto simp: convert_frame(2))
  from c show "current (snd (fetch_column lib dbproc ncol w)) = current w"
    by (auto simp: convert_frame(3))
qed

lemma column_loop_frame:
  "extends is_fetch_call w (snd (column_loop lib dbproc ncol ncols w)) \<and>
   pending (snd (column_loop lib dbproc ncol ncols w)) = pending w \<and>
   current (snd (column_loop lib dbproc ncol ncols w)) = current w"
proof (induction lib dbproc ncol ncols w rule: column_loop.induct)
  case (1 lib dbproc ncol ncols w)
  show ?case
  proof (cases "ncol < ncols")
    case False
    then show ?thesis
      by (simp add: column_loop.simps [of lib dbproc ncol ncols w] extends_refl)
  next
    case True
    obtain v w1 where f: "fetch_column lib dbproc ncol w = (v, w1)"
      by (cases "fetch_column lib dbproc ncol w")
    obtain vs w2 where l: "column_loop lib dbproc (ncol + 1) ncols w1 = (vs, w2)"
      by (cases "column_loop lib dbproc (ncol + 1) ncols w1")
    have w1: "extends is_fetch_call w w1" "pending w1 = pending w" "current w1 = current w"
      using fetch_column_frame [where w = w and lib = lib and dbproc = dbproc and ncol = ncol]
      by (simp_all add: f)
    have w2: "extends is_fetch_call w1 w2 \<and> pending w2 = pending w1 \<and> current w2 = current w1"
      using "1.IH" [OF True f [symmetric]] by (simp add: l)
    have "snd (column_loop lib dbproc ncol ncols w) = w2"
      by (simp add: column_loop.simps [of lib dbproc ncol ncols w] True f l)
    then show ?thesis
      using w1 w2 by (auto intro: extends_trans)
  qed
qed

lemma dbnextrow_frame:
  assumes "dbnextrow dbproc w = (ret, w1)"
  shows "extends is_fetch_call w w1"
    and "ret = REG_ROW \<Longrightarrow> \<exists>rs. pending w = (REG_ROW, current w1) # rs"
  using assms
  by (auto simp: dbnextrow_def extends_def NO_MORE_ROWS_def REG_ROW_def split: list.splits)

lemma fetch_row_cases:
  assumes "fetch_row lib festate w = (r, festate', w')"
      and "dbnextrow (fe_dbproc festate) w = (ret, w1)"
  shows "ret = REG_ROW \<and> festate' = festate\<lparr>fe_row := fe_row festate + 1\<rparr> \<and>
           (\<exists>values. r = Inr (Some values) \<and>
              column_loop lib (fe_dbproc festate) 0 (dbnumcols w1)
                (issue (DbNumCols (fe_dbproc festate)) w1) = (values, w')) \<or>
         ret \<noteq> REG_ROW \<and> festate' = festate \<and> w' = w1 \<and>
           (\<forall>values. r \<noteq> Inr (Some values))"
  using assms unfolding fetch_row_def
  by (auto simp: Let_def retcode_defs split: prod.splits if_splits)

lemma fetch_row_frame:
  assumes "fetch_row lib festate w = (r, festate', w')"
  shows "extends is_fetch_call w w'"
    and "fe_first festate' = fe_first festate"
    and "fe_login festate' = fe_login festate"
    and "fe_dbproc festate' = fe_dbproc festate"
    and "fe_query festate' = fe_query festate"
proof -
  obtain ret w1 where d: "dbnextrow (fe_dbproc festate) w = (ret, w1)"
    by (cases "dbnextrow (fe_dbproc festate) w")
  note c = fetch_row_cases [OF assms d]
  have e1: "extends is_fetch_call w w1"
    by (rule dbnextrow_frame(1) [OF d])
  have e2: "extends is_fetch_call w1 (issue (DbNumCols (fe_dbproc festate)) w1)"
    by (rule extends_issue) simp
  show "extends is_fetch_call w w'"
  proof (cases "ret = REG_ROW")
    case True
    with c obtain vals where
      "column_loop lib (fe_dbproc festate) 0 (dbnumcols w1)
         (issue (DbNumCols (fe_dbproc festate)) w1) = (vals, w')"
      by blast
    then have "extends is_fetch_call (issue (DbNumCols (fe_dbproc festate)) w1) w'"
      using column_loop_frame
        [of "issue (DbNumCols (fe_dbproc festate)) w1" lib "fe_dbproc festate" 0 "dbnumcols w1"]
      by simp
    with e1 e2 show ?thesis
      by (blast intro: extends_trans)
  next
    case False
    with c e1 show ?thesis by simp
  qed
  from c show "fe_first festate' = fe_first festate" by auto
  from c show "fe_login festate' = fe_login festate" by auto
  from c show "fe_dbproc festate' = fe_dbproc festate" by auto
  from c show "fe_query festate' = fe_query festate" by auto
qed

lemma issue_query_calls:
  "calls (snd (issue_query lib festate w)) = calls w @ query_calls lib festate"
  by (simp add: issue_query_def query_calls_def Let_def)

lemma query_calls_all: "list_all is_query_call (query_calls lib festate)"
  by (simp add: query_calls_def)

lemma iterate_first:
  assumes "fe_first festate \<noteq> 0"
      and "tdsIterateForeignScan lib festate w = (r, festate', w')"
  shows "\<exists>w1. calls w1 = calls w @ query_calls lib festate \<and> extends is_fetch_call w1 w'"
    and "fe_first festate' = 0"
    and "fe_login festate' = fe_login festate"
    and "fe_dbproc festate' = fe_dbproc festate"
    and "fe_query festate' = fe_query festate"
proof -
  let ?fs = "festate\<lparr>fe_first := 0\<rparr>"
  obtain e w1 where q: "issue_query lib ?fs w = (e, w1)"
    by (cases "issue_query lib ?fs w")
  have qc: "query_calls lib ?fs = query_calls lib festate"
    by (simp add: query_calls_def)
  have c1: "calls w1 = calls w @ query_calls lib festate"
    using issue_query_calls [of lib ?fs w] by (simp add: q qc)
  have alt: "(e \<noteq> None \<and> festate' = ?fs \<and> w' = w1) \<or>
             (e = None \<and> fetch_row lib ?fs w1 = (r, festate', w'))"
    using assms q by (auto simp: tdsIterateForeignScan_def Let_def split: option.splits)
  then have ext: "extends is_fetch_call w1 w'"
    by (auto intro: extends_refl fetch_row_frame(1))
  from c1 ext show "\<exists>w1. calls w1 = calls w @ query_calls lib festate \<and> extends is_fetch_call w1 w'"
    by blast
  from alt show "fe_first festate' = 0" by (auto dest: fetch_row_frame(2))
  from alt show "fe_login festate' = fe_login festate" by (auto dest: fetch_row_frame(3))
  from alt show "fe_dbproc festate' = fe_dbproc festate" by (auto dest: fetch_row_frame(4))
  from alt show "fe_query festate' = fe_query festate" by (auto dest: fetch_row_frame(5))
qed

lemma iterate_later:
  assumes "fe_first festate = 0"
      and "tdsIterateForeignScan lib festate w = (r, festate', w')"
  shows "extends is_fetch_call w w'"
    and "fe_first festate' = 0"
    and "fe_login festate' = fe_login festate"
    and "fe_dbproc festate' = fe_dbproc festate"
    and "fe_query festate' = fe_query festate"
proof -
  have f: "fetch_row lib festate w = (r, festate', w')"
    using assms by (simp add: tdsIterateForeignScan_def)
  show "extends is_fetch_call w w'" by (rule fetch_row_frame(1) [OF f])
  show "fe_first festate' = 0" using fetch_row_frame(2) [OF f] assms(1) by simp
  show "fe_login festate' = fe_login festate" by (rule fetch_row_frame(3) [OF f])
  show "fe_dbproc festate' = fe_dbproc festate" by (rule fetch_row_frame(4) [OF f])
  show "fe_query festate' = fe_query festate" by (rule fetch_row_frame(5) [OF f])
qed

lemma iterate_calls_later:
  assumes "fe_first festate = 0"
      and "iterate_calls lib n festate w = (festate', w')"
  shows "extends is_fetch_call w w' \<and> fe_first festate' = 0 \<and>
         fe_login festate' = fe_login festate \<and> fe_dbproc festate' = fe_dbproc festate"
  using assms
proof (induction n arbitrary: festate w)
  case 0
  then show ?case by (simp add: extends_refl)
next
  case (Suc n)
  obtain r fs1 w1 where i: "tdsIterateForeignScan lib festate w = (r, fs1, w1)"
    by (cases "tdsIterateForeignScan lib festate w")
  note l = iterate_later [OF Suc.prems(1) i]
  have "iterate_calls lib n fs1 w1 = (festate', w')"
    using Suc.prems(2) by (simp add: i)
  from Suc.IH [OF l(2) this] l show ?case
    by (auto intro: extends_trans)
qed

lemma scan_not_release: "is_scan_call c \<Longrightarrow> \<not> is_release_call c"
  by (cases c) (simp_all add: is_scan_call_def)

lemma setup_Inr:
  assumes "servername os = Some sname"
      and "tdsSetupConnection lib os login w = (Inr (os', dbproc), w')"
  shows "extends is_session_call w w'" and "dbopen_ret lib = Some dbproc"
  using assms(2) unfolding setup_result [OF assms(1)]
  by (auto simp: extends_def login_calls_def split: sum.splits option.splits if_splits)

lemma begin_Inr:
  assumes "tdsBeginForeignScan lib f_table f_server f_mapping w0 = (Inr festate, w)"
  shows "extends is_session_call w0 w"
    and "fe_first festate = 1"
    and "dblogin_ret lib = Some (fe_login festate)"
    and "dbopen_ret lib = Some (fe_dbproc festate)"
proof -
  define w3 where "w3 = issue DbLogin (issue DbMsgHandle (issue DbErrHandle (issue DbInit w0)))"
  from assms obtain os where o: "tdsGetOptions f_table f_server f_mapping = Inr os"
    by (auto simp: tdsBeginForeignScan_def split: sum.splits)
  obtain sname where sn: "servername os = Some sname"
    using tdsGetOptions_fields(1) [OF o] by blast
  from assms o obtain login os' dbproc where
    l: "dblogin_ret lib = Some login" and
    s: "tdsSetupConnection lib os login w3 = (Inr (os', dbproc), w)" and
    f: "festate = \<lparr> fe_login = login, fe_dbproc = dbproc, fe_query = query os',
                     fe_first = 1, fe_row = 0 \<rparr>"
    unfolding tdsBeginForeignScan_def Let_def w3_def
    by (auto split: if_splits option.splits sum.splits prod.splits)
  have "extends is_session_call w0 w3"
    by (simp add: w3_def extends_def)
  with setup_Inr(1) [OF sn s] show "extends is_session_call w0 w"
    by (rule extends_trans [rotated])
  show "fe_first festate = 1" by (simp add: f)
  show "dblogin_ret lib = Some (fe_login festate)" by (simp add: f l)
  show "dbopen_ret lib = Some (fe_dbproc festate)" using setup_Inr(2) [OF sn s] by (simp add: f)
qed

lemma iterate_any:
  assumes "tdsIterateForeignScan lib festate w = (r, festate', w')"
  shows "extends is_scan_call w w' \<and> fe_login festate' = fe_login festate \<and>
         fe_dbproc festate' = fe_dbproc festate"
proof (cases "fe_first festate = 0")
  case True
  from iterate_later [OF True assms] show ?thesis
    by (auto intro: extends_mono simp: is_scan_call_def)
next
  case False
  obtain w1 where w1: "calls w1 = calls w @ query_calls lib festate"
      "extends is_fetch_call w1 w'"
    using iterate_first(1) [OF False assms] by blast
  have "extends is_scan_call w w1"
    using w1(1) query_calls_all [of lib festate]
    by (auto simp: extends_def is_scan_call_def list_all_iff)
  moreover have "extends is_scan_call w1 w'"
    using w1(2) by (rule extends_mono) (simp add: is_scan_call_def)
  ultimately have "extends is_scan_call w w'"
    by (rule extends_trans)
  with iterate_first(3,4) [OF False assms] show ?thesis by simp
qed

lemma iterate_calls_any:
  assumes "iterate_calls lib n festate w = (festate', w')"
  shows "extends is_scan_call w w' \<and> fe_login festate' = fe_login festate \<and>
         fe_dbproc festate' = fe_dbproc festate"
  using assms
proof (induction n arbitrary: festate w)
  case 0
  then show ?case by (simp add: extends_refl)
next
  case (Suc n)
  obtain r fs1 w1 where i: "tdsIterateForeignScan lib festate w = (r, fs1, w1)"
    by (cases "tdsIterateForeignScan lib festate w")
  have "iterate_calls lib n fs1 w1 = (festate', w')"
    using Suc.prems by (simp add: i)
  from Suc.IH [OF this] iterate_any [OF i] show ?case
    by (auto intro: extends_trans)
qed

lemma end_calls:
  "calls (tdsEndForeignScan festate w) =
     calls w @ [DbClose (fe_dbproc festate), DbLoginFree (fe_login festate), DbExit]"
  by (simp add: tdsEndForeignScan_def)

text \<open>
  Claim C2. The query of a scan is compiled and executed exactly once, lazily:
  \<^verbatim>\<open>tdsBeginForeignScan\<close> issues no \<^verbatim>\<open>dbcmd\<close>, \<^verbatim>\<open>dbsqlexec\<close> or \<^verbatim>\<open>dbresults\<close>;
  the first call of \<^verbatim>\<open>tdsIterateForeignScan\<close> issues them, in that order and
  before anything else (each one provided the one before did not fail), and
  every later call issues only row-fetching calls.
\<close>

theorem query_issued_once_on_first_iterate:
  assumes "tdsBeginForeignScan lib f_table f_server f_mapping w0 = (Inr festate, w)"
      and "tdsIterateForeignScan lib festate w = (r1, festate1, w1)"
      and "iterate_calls lib n festate1 w1 = (festate', w')"
  shows "filter is_query_call (calls w) = filter is_query_call (calls w0) \<and>
         fe_first festate = 1 \<and>
         (\<exists>fetches. calls w1 = calls w @ query_calls lib festate @ fetches \<and>
                    list_all is_fetch_call fetches) \<and>
         (dbcmd_ret lib \<noteq> FAIL \<and> dbsqlexec_ret lib \<noteq> FAIL \<longrightarrow>
            query_calls lib festate =
              [DbCmd (fe_dbproc festate) (fe_query festate), DbSqlExec (fe_dbproc festate),
               DbResults (fe_dbproc festate)]) \<and>
         fe_first festate1 = 0 \<and>
         (\<exists>fetches. calls w' = calls w1 @ fetches \<and> list_all is_fetch_call fetches) \<and>
         filter is_query_call (calls w') = filter is_query_call (calls w0) @ query_calls lib festate"
proof -
  note b = begin_Inr [OF assms(1)]
  have first: "fe_first festate \<noteq> 0"
    by (simp add: b(2))
  note i = iterate_first [OF first assms(2)]
  note l = iterate_calls_later [OF i(2) assms(3)]
  have q0: "filter is_query_call (calls w) = filter is_query_call (calls w0)"
    using b(1) by (rule extends_filter) (rule session_not_query)
  obtain wq where wq: "calls wq = calls w @ query_calls lib festate"
      "extends is_fetch_call wq w1"
    using i(1) by blast
  then obtain fetches where f1: "calls w1 = calls w @ query_calls lib festate @ fetches"
      "list_all is_fetch_call fetches"
    by (auto simp: extends_def)
  obtain fetches' where f2: "calls w' = calls w1 @ fetches'" "list_all is_fetch_call fetches'"
    using l by (auto simp: extends_def)
  have n1: "filter is_query_call fetches = []"
    by (rule filter_none [OF f1(2)]) (rule fetch_not_query)
  have n2: "filter is_query_call fetches' = []"
    by (rule filter_none [OF f2(2)]) (rule fetch_not_query)
  have qa: "filter is_query_call (query_calls lib festate) = query_calls lib festate"
    using query_calls_all [of lib festate] by (simp add: list_all_iff)
  have q2: "filter is_query_call (calls w') =
              filter is_query_call (calls w0) @ query_calls lib festate"
    by (simp add: f2(1) f1(1) n1 n2 qa q0)
  have qs: "dbcmd_ret lib \<noteq> FAIL \<and> dbsqlexec_ret lib \<noteq> FAIL \<longrightarrow>
            query_calls lib festate =
              [DbCmd (fe_dbproc festate) (fe_query festate), DbSqlExec (fe_dbproc festate),
               DbResults (fe_dbproc festate)]"
    by (simp add: query_calls_def)
  show ?thesis
    using q0 b(2) f1 qs i(2) f2 q2 by blast
qed

text \<open>
  Claim C7. In whatever state a scan is closed, also after calls that ended in
  a fatal error, \<^verbatim>\<open>tdsEndForeignScan\<close> releases the connection handle, then the
  login handle, then the library, in that order, each once: they are the handles
  the scan obtained when it began, and nothing before the close has released
  them.
\<close>

theorem close_releases_session_once:
  assumes "tdsBeginForeignScan lib f_table f_server f_mapping w0 = (Inr festate, w)"
      and "iterate_calls lib n festate w = (festate', w')"
  shows "dbopen_ret lib = Some (fe_dbproc festate') \<and>
         dblogin_ret lib = Some (fe_login festate') \<and>
         calls (tdsEndForeignScan festate' w') =
           calls w' @ [DbClose (fe_dbproc festate'), DbLoginFree (fe_login festate'), DbExit] \<and>
         filter is_release_call (calls w') = filter is_release_call (calls w0)"
proof -
  note b = begin_Inr [OF assms(1)]
  note s = iterate_calls_any [OF assms(2)]
  have "filter is_release_call (calls w) = filter is_release_call (calls w0)"
    using b(1) by (rule extends_filter) (rule session_not_release)
  moreover have "extends is_scan_call w w'"
    using s by simp
  then have "filter is_release_call (calls w') = filter is_release_call (calls w)"
    by (rule extends_filter) (rule scan_not_release)
  ultimately show ?thesis
    using b(3,4) s by (simp add: end_calls)
qed

subsection \<open>The cells of a row\<close>

lemma fetch_column_null:
  assumes "0 \<le> ncol" and "ncol < int (length (current w))"
      and "\<not> has_data (current w ! nat ncol)"
  shows "fetch_column lib dbproc ncol w =
           (None, issue (DbData dbproc (ncol + 1))
                    (issue (DbDatLen dbproc (ncol + 1)) (issue (DbColType dbproc (ncol + 1)) w)))"
proof -
  have r: "in_range w (ncol + 1)"
    using assms(1,2) by (simp add: in_range_def)
  have n: "nat (ncol + 1 - 1) = nat ncol"
    by simp
  show ?thesis
    using assms(3) r
    by (auto simp: fetch_column_def Let_def dbdatlen_def dbdata_def in_range_def has_data_def n
             split: option.splits)
qed

lemma fetch_column_count:
  assumes "0 \<le> ncol" and "ncol < int (length (current w))"
  shows "length (filter is_willconvert_call (calls (snd (fetch_column lib dbproc ncol w)))) =
         length (filter is_willconvert_call (calls w)) +
           (if has_data (current w ! nat ncol) then 1 else 0)"
proof (cases "has_data (current w ! nat ncol)")
  case False
  then show ?thesis
    by (simp add: fetch_column_null [OF assms False])
next
  case True
  have r: "in_range w (ncol + 1)"
    using assms by (simp add: in_range_def)
  have n: "nat (ncol + 1 - 1) = nat ncol"
    by simp
  let ?w3 = "issue (DbData dbproc (ncol + 1))
              (issue (DbDatLen dbproc (ncol + 1)) (issue (DbColType dbproc (ncol + 1)) w))"
  from True obtain b where b: "data (current w ! nat ncol) = Some b"
      "datlen (current w ! nat ncol) \<noteq> 0"
    by (auto simp: has_data_def)
  have "fetch_column lib dbproc ncol w =
          tdsConvertToCString lib dbproc (coltype (current w ! nat ncol)) b
            (datlen (current w ! nat ncol)) ?w3"
    using r b
    by (simp add: fetch_column_def Let_def dbdatlen_def dbdata_def dbcoltype_def in_range_def n)
  then show ?thesis
    using True by (simp add: convert_frame(4))
qed

lemma column_loop_values:
  "0 \<le> ncol \<Longrightarrow> ncols = int (length (current w)) \<Longrightarrow>
   length (fst (column_loop lib dbproc ncol ncols w)) = length (current w) - nat ncol \<and>
   (\<forall>i<length (current w) - nat ncol.
      \<not> has_data (current w ! (nat ncol + i)) \<longrightarrow>
      fst (column_loop lib dbproc ncol ncols w) ! i = None) \<and>
   length (filter is_willconvert_call (calls (snd (column_loop lib dbproc ncol ncols w)))) =
     length (filter is_willconvert_call (calls w)) +
     length (filter has_data (drop (nat ncol) (current w)))"
proof (induction lib dbproc ncol ncols w rule: column_loop.induct)
  case (1 lib dbproc ncol ncols w)
  show ?case
  proof (cases "ncol < ncols")
    case False
    then have e: "column_loop lib dbproc ncol ncols w = ([], w)"
      by (simp add: column_loop.simps [of lib dbproc ncol ncols w])
    have "length (current w) - nat ncol = 0"
      using False "1.prems" by simp
    then show ?thesis
      by (simp add: e)
  next
    case True
    obtain v w1 where f: "fetch_column lib dbproc ncol w = (v, w1)"
      by (cases "fetch_column lib dbproc ncol w")
    obtain vs w2 where l: "column_loop lib dbproc (ncol + 1) ncols w1 = (vs, w2)"
      by (cases "column_loop lib dbproc (ncol + 1) ncols w1")
    have rng: "0 \<le> ncol" "ncol < int (length (current w))"
      using "1.prems" True by simp_all
    have cur: "current w1 = current w"
      using fetch_column_frame(3) [where w = w and lib = lib and dbproc = dbproc and ncol = ncol]
      by (simp add: f)
    have step: "column_loop lib dbproc ncol ncols w = (v # vs, w2)"
      by (simp add: column_loop.simps [of lib dbproc ncol ncols w] True f l)
    have ih: "length vs = length (current w) - nat (ncol + 1) \<and>
       (\<forall>i<length (current w) - nat (ncol + 1).
          \<not> has_data (current w ! (nat (ncol + 1) + i)) \<longrightarrow> vs ! i = None) \<and>
       length (filter is_willconvert_call (calls w2)) =
         length (filter is_willconvert_call (calls w1)) +
         length (filter has_data (drop (nat (ncol + 1)) (current w)))"
    proof -
      have p1: "0 \<le> ncol + 1"
        using rng(1) by simp
      have p2: "ncols = int (length (current w1))"
        using "1.prems"(2) by (simp only: cur)
      show ?thesis
        using "1.IH" [OF True f [symmetric] p1 p2]
        unfolding l fst_conv snd_conv cur .
    qed
    have suc: "nat (ncol + 1) = Suc (nat ncol)"
      using rng(1) by simp
    have len: "length (v # vs) = length (current w) - nat ncol"
      using ih rng by (simp add: suc)
    have vnull: "\<not> has_data (current w ! nat ncol) \<Longrightarrow> v = None"
      using fetch_column_null [OF rng, of lib dbproc] f by simp
    have cells: "\<forall>i<length (current w) - nat ncol.
          \<not> has_data (current w ! (nat ncol + i)) \<longrightarrow> (v # vs) ! i = None"
    proof (intro allI impI)
      fix i
      assume i: "i < length (current w) - nat ncol"
        and h: "\<not> has_data (current w ! (nat ncol + i))"
      show "(v # vs) ! i = None"
      proof (cases i)
        case 0
        with h vnull show ?thesis by simp
      next
        case (Suc j)
        with i h ih show ?thesis by (simp add: suc)
      qed
    qed
    have c1: "length (filter is_willconvert_call (calls w1)) =
                length (filter is_willconvert_call (calls w)) +
                (if has_data (current w ! nat ncol) then 1 else 0)"
      using fetch_column_count [OF rng, of lib dbproc] by (simp add: f)
    have d: "drop (nat ncol) (current w) =
               current w ! nat ncol # drop (nat (ncol + 1)) (current w)"
      using rng by (simp add: suc Cons_nth_drop_Suc)
    have cnt: "length (filter is_willconvert_call (calls w2)) =
                 length (filter is_willconvert_call (calls w)) +
                 length (filter has_data (drop (nat ncol) (current w)))"
      using ih c1 by (simp add: d)
    show ?thesis
      using len cells cnt by (simp only: step fst_conv snd_conv)
  qed
qed

text \<open>
  Claim C6. For every row and column, a reported data length of 0 or a null
  data pointer gives a NULL cell, and no conversion is attempted for it: the
  conversions started while the row is read are as many as the columns that
  have data.
\<close>

theorem null_column_gives_null_cell:
  assumes "tdsIterateForeignScan lib festate w = (Inr (Some vals), festate', w')"
  shows "length vals = length (current w') \<and>
         (\<forall>i<length vals.
            datlen (current w' ! i) = 0 \<or> data (current w' ! i) = None \<longrightarrow> vals ! i = None) \<and>
         length (filter is_willconvert_call (calls w')) =
           length (filter is_willconvert_call (calls w)) +
           length (filter has_data (current w'))"
proof -
  obtain fs0 w0 where fr: "fetch_row lib fs0 w0 = (Inr (Some vals), festate', w')"
    and c0: "filter is_willconvert_call (calls w0) = filter is_willconvert_call (calls w)"
  proof (cases "fe_first festate = 0")
    case True
    with assms have "fetch_row lib festate w = (Inr (Some vals), festate', w')"
      by (simp add: tdsIterateForeignScan_def)
    then show ?thesis using that by blast
  next
    case False
    let ?fs = "festate\<lparr>fe_first := 0\<rparr>"
    obtain e w1 where q: "issue_query lib ?fs w = (e, w1)"
      by (cases "issue_query lib ?fs w")
    with assms False have f: "fetch_row lib ?fs w1 = (Inr (Some vals), festate', w')"
      by (auto simp: tdsIterateForeignScan_def Let_def split: option.splits)
    have "calls w1 = calls w @ query_calls lib ?fs"
      using issue_query_calls [of lib ?fs w] by (simp add: q)
    then have "filter is_willconvert_call (calls w1) = filter is_willconvert_call (calls w)"
      by (simp add: query_calls_def)
    with f show ?thesis using that by blast
  qed
  obtain ret w1 where d: "dbnextrow (fe_dbproc fs0) w0 = (ret, w1)"
    by (cases "dbnextrow (fe_dbproc fs0) w0")
  let ?w2 = "issue (DbNumCols (fe_dbproc fs0)) w1"
  have loop: "column_loop lib (fe_dbproc fs0) 0 (dbnumcols w1) ?w2 = (vals, w')"
    using fetch_row_cases [OF fr d] by auto
  have c1: "filter is_willconvert_call (calls w1) = filter is_willconvert_call (calls w0)"
    using d by (auto simp: dbnextrow_def split: list.splits)
  have n: "dbnumcols w1 = int (length (current ?w2))"
    by (simp add: dbnumcols_def)
  note v = column_loop_values [OF order_refl n, of lib "fe_dbproc fs0", unfolded loop]
  have cur: "current w' = current w1"
    using column_loop_frame [of ?w2 lib "fe_dbproc fs0" 0 "dbnumcols w1"] by (simp add: loop)
  show ?thesis
    using v c0 c1 by (auto simp: cur has_data_def)
qed

subsection \<open>A sample scan\<close>

lemma sample_begin:
  "tdsBeginForeignScan lib_ok employees_table example_server example_mapping scan_world =
     (Inr begun_state, begun_world)"
  by code_simp

lemma sample_first_row:
  "tdsIterateForeignScan lib_ok begun_state begun_world =
     (Inr (Some [Some ''Alice'', None]), row_state, row_world)"
  by code_simp

lemma sample_error:
  "fst (tdsIterateForeignScan lib_ok row_state row_world) =
     Inl (ERROR ERRCODE_FDW_UNABLE_TO_CREATE_EXECUTION ''Failed to get row during query'')"
  by code_simp

text \<open>The witness of claim C2: one row is read, then two more calls are made.\<close>

theorem query_issued_once_on_first_iterate_witness:
  "tdsBeginForeignScan lib_ok employees_table example_server example_mapping scan_world =
     (Inr begun_state, begun_world) \<and>
   tdsIterateForeignScan lib_ok begun_state begun_world =
     (Inr (Some [Some ''Alice'', None]), row_state, row_world) \<and>
   filter is_query_call (calls begun_world) = [] \<and>
   filter is_query_call (calls (snd (iterate_calls lib_ok 2 row_state row_world))) =
     [DbCmd 2 (Some ''SELECT * FROM employees''), DbSqlExec 2, DbResults 2]"
proof -
  obtain fs' w' where l: "iterate_calls lib_ok 2 row_state row_world = (fs', w')"
    by (cases "iterate_calls lib_ok 2 row_state row_world")
  have q: "query_calls lib_ok begun_state =
             [DbCmd 2 (Some ''SELECT * FROM employees''), DbSqlExec 2, DbResults 2]"
    by code_simp
  have s: "calls scan_world = []"
    by (simp add: scan_world_def)
  show ?thesis
    using query_issued_once_on_first_iterate [OF sample_begin sample_first_row l]
      sample_begin sample_first_row
    by (simp add: l q s)
qed

text \<open>
  The witness of claim C7: the second call of the scan ends in a fatal error,
  and the scan is closed after it.
\<close>

theorem close_releases_session_once_witness:
  "tdsBeginForeignScan lib_ok employees_table example_server example_mapping scan_world =
     (Inr begun_state, begun_world) \<and>
   fst (tdsIterateForeignScan lib_ok row_state row_world) =
     Inl (ERROR ERRCODE_FDW_UNABLE_TO_CREATE_EXECUTION ''Failed to get row during query'') \<and>
   filter is_release_call
     (calls (tdsEndForeignScan (fst (iterate_calls lib_ok 2 begun_state begun_world))
               (snd (iterate_calls lib_ok 2 begun_state begun_world)))) =
     [DbClose 2, DbLoginFree 1, DbExit]"
proof -
  obtain fs' w' where l: "iterate_calls lib_ok 2 begun_state begun_world = (fs', w')"
    by (cases "iterate_calls lib_ok 2 begun_state begun_world")
  have o: "dbopen_ret lib_ok = Some 2" "dblogin_ret lib_ok = Some 1"
    by (simp_all add: lib_ok_def)
  have s: "calls scan_world = []"
    by (simp add: scan_world_def)
  show ?thesis
    using close_releases_session_once [OF sample_begin l] sample_begin sample_error
    by (simp add: l o s)
qed

text \<open>The witness of claim C6: the second column of the row is null.\<close>

theorem null_column_gives_null_cell_witness:
  "tdsIterateForeignScan lib_ok begun_state begun_world =
     (Inr (Some [Some ''Alice'', None]), row_state, row_world) \<and>
   datlen (current row_world ! 1) = 0 \<and>
   [Some ''Alice'', None :: cell] ! 1 = None \<and>
   length (filter is_willconvert_call (calls row_world)) = 1"
proof -
  have c: "current row_world = [name_column, null_column]"
    by (simp add: row_world_def)
  have d: "datlen null_column = 0" "has_data name_column" "\<not> has_data null_column"
    by (simp_all add: null_column_def name_column_def has_data_def)
  have b: "filter is_willconvert_call (calls begun_world) = []"
    by (simp add: begun_world_def)
  show ?thesis
    using null_column_gives_null_cell [OF sample_first_row] sample_first_row
    by (simp add: c d b)
qed

subsection \<open>Row-count estimation\<close>

lemma rowcount_no_release:
  "filter is_release_call (calls (snd (tdsGetRowCount lib os dbproc w))) =
     filter is_release_call (calls w)"
  by (simp add: tdsGetRowCount_def dbnextrow_def Let_def split: list.splits)

lemma rowcount_Inr:
  assumes "tdsGetRowCount lib os dbproc w = (Inr rows, w')"
  shows "dbresults_ret lib = NO_MORE_RESULTS \<and> rows = 0 \<or>
         dbresults_ret lib = SUCCEED \<and> rows = dbcount_ret lib"
    and "length (filter (\<lambda>c. c = DbNextRow dbproc) (calls w')) \<le>
           Suc (length (filter (\<lambda>c. c = DbNextRow dbproc) (calls w)))"
  using assms
  by (auto simp: tdsGetRowCount_def dbnextrow_def Let_def split: list.splits if_splits)

lemma relsize_failure_releases_nothing:
  assumes "tdsGetForeignRelSize lib f_table f_server f_mapping w = (Inl e, w')"
  shows "filter is_release_call (calls w') = filter is_release_call (calls w)"
proof (cases "tdsGetOptions f_table f_server f_mapping")
  case (Inl e')
  with assms show ?thesis
    by (simp add: tdsGetForeignRelSize_def)
next
  case (Inr os)
  obtain sname where sn: "servername os = Some sname"
    using tdsGetOptions_fields(1) [OF Inr] by blast
  define w3 where "w3 = issue DbLogin (issue DbMsgHandle (issue DbErrHandle (issue DbInit w)))"
  have r3: "filter is_release_call (calls w3) = filter is_release_call (calls w)"
    by (simp add: w3_def)
  have r1: "filter is_release_call (calls (issue DbInit w)) = filter is_release_call (calls w)"
    by simp
  have sc: "filter is_release_call (calls (snd (tdsSetupConnection lib os login w3))) =
                 filter is_release_call (calls w3)" for login
    unfolding setup_result [OF sn]
    by (simp add: login_calls_def split: sum.splits option.splits)
  show ?thesis
  proof (cases "dbinit_ret lib = FAIL")
    case True
    with assms Inr show ?thesis
      by (auto simp: tdsGetForeignRelSize_def Let_def)
  next
    case False
    show ?thesis
    proof (cases "dblogin_ret lib")
      case None
      with assms Inr False show ?thesis
        by (auto simp: tdsGetForeignRelSize_def Let_def)
    next
      case (Some login)
      obtain r4 w4 where s4: "tdsSetupConnection lib os login w3 = (r4, w4)"
        by (cases "tdsSetupConnection lib os login w3")
      have r4: "filter is_release_call (calls w4) = filter is_release_call (calls w)"
        using sc [of login] by (simp add: s4 r3)
      show ?thesis
      proof (cases r4)
        case (Inl e4)
        with assms Inr False Some s4 have "w' = w4"
          by (simp add: tdsGetForeignRelSize_def Let_def w3_def)
        with r4 show ?thesis by simp
      next
        case (Inr p)
        obtain os' dbproc where p: "p = (os', dbproc)"
          by (cases p)
        obtain r5 w5 where s5: "tdsGetRowCount lib os' dbproc w4 = (r5, w5)"
          by (cases "tdsGetRowCount lib os' dbproc w4")
        have r5: "filter is_release_call (calls w5) = filter is_release_call (calls w)"
          using rowcount_no_release [of lib os' dbproc w4] by (simp add: s5 r4)
        from assms \<open>tdsGetOptions f_table f_server f_mapping = Inr os\<close> False Some s4 Inr p s5
        have "w' = w5"
          by (auto simp: tdsGetForeignRelSize_def Let_def w3_def split: sum.splits)
        with r5 show ?thesis by simp
      qed
    qed
  qed
qed

lemma relsize_return_closes:
  assumes "tdsGetForeignRelSize lib f_table f_server f_mapping w = (Inr rows, w')"
  shows "\<exists>before login dbproc.
           calls w' = before @ [DbClose dbproc, DbLoginFree login, DbExit] \<and>
           filter is_release_call before = filter is_release_call (calls w) \<and>
           dblogin_ret lib = Some login \<and> dbopen_ret lib = Some dbproc \<and>
           (dbresults_ret lib = NO_MORE_RESULTS \<and> rows = 0 \<or>
            dbresults_ret lib = SUCCEED \<and> rows = dbcount_ret lib)"
proof -
  from assms obtain os where o: "tdsGetOptions f_table f_server f_mapping = Inr os"
    by (auto simp: tdsGetForeignRelSize_def split: sum.splits)
  obtain sname where sn: "servername os = Some sname"
    using tdsGetOptions_fields(1) [OF o] by blast
  define w3 where "w3 = issue DbLogin (issue DbMsgHandle (issue DbErrHandle (issue DbInit w)))"
  from assms o obtain login os' dbproc w4 w5 where
    l: "dblogin_ret lib = Some login" and
    s: "tdsSetupConnection lib os login w3 = (Inr (os', dbproc), w4)" and
    c: "tdsGetRowCount lib os' dbproc w4 = (Inr rows, w5)" and
    e: "w' = issue DbExit (issue (DbLoginFree login) (issue (DbClose dbproc) w5))"
    unfolding tdsGetForeignRelSize_def Let_def w3_def
    by (auto split: if_splits option.splits sum.splits prod.splits)
  have r3: "filter is_release_call (calls w3) = filter is_release_call (calls w)"
    by (simp add: w3_def)
  have r4: "filter is_release_call (calls w4) = filter is_release_call (calls w3)"
    using setup_Inr(1) [OF sn s] by (rule extends_filter) (rule session_not_release)
  have r5: "filter is_release_call (calls w5) = filter is_release_call (calls w4)"
    using rowcount_no_release [of lib os' dbproc w4] by (simp add: c)
  have "calls w' = calls w5 @ [DbClose dbproc, DbLoginFree login, DbExit]"
    by (simp add: e)
  with r3 r4 r5 l setup_Inr(2) [OF sn s] rowcount_Inr(1) [OF c] show ?thesis
    by auto
qed

text \<open>
  Claim C4 says that the row-count estimation returns 0 when the query yields
  no result set and otherwise the row count the connection reports, after at
  most one row has been fetched, and that the transient session is closed
  afterwards on success and on failure alike. The first half holds whenever
  \<^verbatim>\<open>tdsGetForeignRelSize\<close> returns, and then the session is closed
  (\<open>relsize_return_closes\<close>). On a failure it is not: \<^verbatim>\<open>tdsGetRowCount\<close> and
  \<^verbatim>\<open>tdsSetupConnection\<close> report every failure with \<^verbatim>\<open>ereport(ERROR, ...)\<close>, which
  leaves \<^verbatim>\<open>tdsGetForeignRelSize\<close> at once, so the \<^verbatim>\<open>goto cleanup\<close> written after
  it is never reached and \<^verbatim>\<open>dbclose\<close>, \<^verbatim>\<open>dbloginfree\<close> and \<^verbatim>\<open>dbexit\<close> are not
  called (\<open>relsize_failure_releases_nothing\<close>). Here \<^verbatim>\<open>dbcmd\<close> fails after the
  connection has been opened: the call log ends with \<^verbatim>\<open>dbcmd\<close>.
\<close>

theorem row_count_failure_leaves_session_open:
  "tdsGetForeignRelSize lib_cmd_fails employees_table example_server example_mapping world0 =
     (Inl (ERROR ERRCODE_FDW_UNABLE_TO_CREATE_EXECUTION
             ''Failed to set current query to SELECT * FROM employees''),
      \<lparr> calls =
          [DbInit, DbErrHandle, DbMsgHandle, DbLogin, DbSetLUser 1 (Some ''sa''),
           DbSetLPwd 1 (Some ''secret''), DbOpen 1 ''db.example.com:1433'',
           DbCmd 2 (Some ''SELECT * FROM employees'')],
        pending = [], current = [] \<rparr>)"
  by code_simp

subsection \<open>Conversion failures\<close>

lemma convert_returns_buffer:
  "fst (tdsConvertToCString lib dbproc srctype src srclen w) \<noteq> None \<longleftrightarrow>
     dbwillconvert_ret lib srctype
       (if srctype = SYBCHAR \<or> srctype = SYBVARCHAR \<or> srctype = SYBTEXT then SYBCHAR
        else if srctype = SYBBINARY \<or> srctype = SYBVARBINARY then SYBBINARY
        else SYBCHAR)"
  by (simp add: tdsConvertToCString_def Let_def)

text \<open>
  Claim C5 says that a conversion failure is not fatal, that the cell becomes
  NULL and that the row goes on. The cell is NULL when \<^verbatim>\<open>dbwillconvert\<close> refuses
  the conversion. When \<^verbatim>\<open>dbconvert\<close> itself reports a failure (\<^verbatim>\<open>FAIL\<close> or -1),
  \<^verbatim>\<open>tdsConvertToCString\<close> still returns the buffer it allocated
  (\<open>convert_returns_buffer\<close>): the row goes on, but the cell is not NULL. Here
  the first column, of type \<^verbatim>\<open>SYBINT4\<close>, fails to convert with -1, and its cell
  is the buffer.
\<close>

theorem failed_conversion_gives_buffer:
  "fst (tdsIterateForeignScan lib_convert_fails row_state
          \<lparr> calls = [], pending = [(REG_ROW, [int_column, name_column])], current = [] \<rparr>) =
     Inr (Some [Some [], Some ''Alice''])"
  by code_simp

end
